theory Spec2Isabelle
  imports Complex_Main
begin

section \<open>Numbers\<close>

text \<open>
  The demo computes with JavaScript numbers. They are modelled as exact reals: every
  arithmetic operation of the source is the corresponding operation on \<open>real\<close>, and
  integer-valued numbers (colour channels, counters, indices) are \<open>int\<close> or \<open>nat\<close>.
  Rounding error of IEEE doubles, infinities and NaN are outside this model; a read of a
  missing array element (JavaScript's \<open>undefined\<close>, which turns the arithmetic that
  follows into NaN) is the value \<open>None\<close>. Where a claim bounds the values of the
  forward pass for every input, overflow decides it, and the forward pass is modelled
  again on float32 values with infinities and NaN (see the section on float32 tensors).
\<close>

definition mathRound :: "real \<Rightarrow> int" where
  \<comment> \<open>\<open>Math.round\<close>: the nearest integer, a tie going up.\<close>
  "mathRound x = \<lfloor>x + 1 / 2\<rfloor>"

section \<open>The complementary colour\<close>

text \<open>The local closure \<open>hue2rgb\<close> of \<open>computeComplementaryColor\<close>.\<close>

definition hue2rgb :: "real \<Rightarrow> real \<Rightarrow> real \<Rightarrow> real" where
  "hue2rgb p q t0 =
     (let t1 = (if t0 < 0 then t0 + 1 else t0);
          t = (if t1 > 1 then t1 - 1 else t1)
      in if t < 1 / 6 then p + (q - p) * 6 * t
         else if t < 1 / 2 then q
         else if t < 2 / 3 then p + (q - p) * (2 / 3 - t) * 6
         else p)"

text \<open>
  The body of \<open>computeComplementaryColor\<close> in its three phases. \<open>rgbToHsl\<close> is the
  conversion of the normalised channels to hue (in the source's radian-like unit),
  saturation and lightness; the hue keeps its initial value \<open>l\<close> when none of the four
  branches of the source applies.
\<close>

definition rgbToHsl :: "real \<Rightarrow> real \<Rightarrow> real \<Rightarrow> real \<times> real \<times> real" where
  "rgbToHsl r g b =
     (let mx = max r (max g b);
          mn = min r (min g b);
          l = (mx + mn) / 2
      in if mx = mn then (0, 0, l)
         else
           let d = mx - mn;
               s = (if l > 1 / 2 then d / (2 - mx - mn) else d / (mx + mn));
               h = (if mx = r \<and> g \<ge> b then 10472 / 10000 * (g - b) / d
                    else if mx = r \<and> g < b then 10472 / 10000 * (g - b) / d + 62832 / 10000
                    else if mx = g then 10472 / 10000 * (b - r) / d + 20944 / 10000
                    else if mx = b then 10472 / 10000 * (r - g) / d + 41888 / 10000
                    else l)
           in (h, s, l))"

definition shiftHue :: "real \<Rightarrow> real" where
  \<comment> \<open>To degrees, to the opposite side of the wheel, then to a value in [0,1].\<close>
  "shiftHue h =
     (let h1 = h / (62832 / 10000) * 360 + 0;
          h2 = h1 + 180;
          h3 = (if h2 > 360 then h2 - 360 else h2)
      in h3 / 360)"

definition hslToRgb :: "real \<Rightarrow> real \<Rightarrow> real \<Rightarrow> real list" where
  "hslToRgb h s l =
     (if s = 0 then [l, l, l]
      else
        let q = (if l < 1 / 2 then l * (1 + s) else l + s - l * s);
            p = 2 * l - q
        in [hue2rgb p q (h + 1 / 3), hue2rgb p q h, hue2rgb p q (h - 1 / 3)])"

definition computeComplementaryColor :: "int list \<Rightarrow> int list option" where
  "computeComplementaryColor rgbColor =
     (case rgbColor of
        r # g # b # _ \<Rightarrow>
          (case rgbToHsl (real_of_int r / 255) (real_of_int g / 255) (real_of_int b / 255) of
             (h, s, l) \<Rightarrow> Some (map (\<lambda>v. mathRound (v * 255)) (hslToRgb (shiftHue h) s l)))
      | _ \<Rightarrow> None)"

section \<open>Errors and JavaScript arrays\<close>

text \<open>
  Exceptions are values. \<open>TypeError\<close> is JavaScript's error on a property read or a
  method call on \<open>undefined\<close> or \<open>null\<close>; \<open>RangeError\<close> is raised by
  \<open>new Array(n)\<close> for a length that is not an unsigned 32-bit integer; \<open>ShapeError\<close>
  is the tensor library's failed shape assertion; \<open>NotANumber\<close> marks a result that
  leaves the exact-real model (the mean of no elements, 0/0).
\<close>

datatype error = TypeError | RangeError | ShapeError | NotANumber

definition bindE :: "error + 'a \<Rightarrow> ('a \<Rightarrow> error + 'b) \<Rightarrow> error + 'b" where
  \<comment> \<open>Sequencing: the first exception ends the computation.\<close>
  "bindE r f = (case r of Inl e \<Rightarrow> Inl e | Inr x \<Rightarrow> f x)"

text \<open>
  An array that is written by index (\<open>this.weights[layerIndex] = weights\<close>) is a list of
  optional elements: a read past the end or of a hole is \<open>None\<close> (\<open>undefined\<close>), a write
  past the end extends the array and leaves holes.
\<close>

definition arrayGet :: "'a option list \<Rightarrow> nat \<Rightarrow> 'a option" where
  "arrayGet xs i = (if i < length xs then xs ! i else None)"

definition arraySet :: "'a option list \<Rightarrow> nat \<Rightarrow> 'a \<Rightarrow> 'a option list" where
  "arraySet xs i v =
     (if i < length xs then xs[i := Some v]
      else xs @ replicate (i - length xs) None @ [Some v])"

definition slice :: "'a list \<Rightarrow> nat \<Rightarrow> nat \<Rightarrow> 'a list" where
  \<comment> \<open>\<open>Array.prototype.slice(i, j)\<close> for indices that are not negative.\<close>
  "slice xs i j = take (j - i) (drop i xs)"

definition newArray :: "int \<Rightarrow> error + nat" where
  \<comment> \<open>\<open>new Array(n)\<close>: the length of the fresh array, or the RangeError.\<close>
  "newArray n = (if n < 0 \<or> 2 ^ 32 \<le> n then Inl RangeError else Inr (nat n))"

section \<open>Tensors\<close>

text \<open>
  The tensor library (\<open>deeplearn\<close>) is not part of the repository. Its operations are
  modelled with their documented meaning on the two ranks the program declares,
  \<open>Rank.R0\<close> (a scalar) and \<open>Rank.R2\<close> (a matrix, stored row by row). The elements
  of these tensors are exact reals; they serve the training loop, the denormalisation
  and the setup.
\<close>

datatype tensor = Scalar real | Tensor2D nat nat "real list"

fun tvals :: "tensor \<Rightarrow> real list" where
  "tvals (Scalar v) = [v]"
| "tvals (Tensor2D m n xs) = xs"

fun tshape :: "tensor \<Rightarrow> nat list" where
  "tshape (Scalar v) = []"
| "tshape (Tensor2D m n xs) = [m, n]"

fun mapT :: "(real \<Rightarrow> real) \<Rightarrow> tensor \<Rightarrow> tensor" where
  "mapT f (Scalar v) = Scalar (f v)"
| "mapT f (Tensor2D m n xs) = Tensor2D m n (map f xs)"

definition tensor2d :: "real list list \<Rightarrow> nat \<times> nat \<Rightarrow> error + tensor" where
  \<comment> \<open>\<open>dl.tensor2d(values, shape)\<close> on a nested array: the flattened values must fill the shape.\<close>
  "tensor2d values sh =
     (case sh of (m, n) \<Rightarrow>
        if length (concat values) = m * n then Inr (Tensor2D m n (concat values))
        else Inl ShapeError)"

definition tensor2dFlat :: "real list \<Rightarrow> nat \<times> nat \<Rightarrow> error + tensor" where
  \<comment> \<open>\<open>dl.tensor2d(values, shape)\<close> on a flat array.\<close>
  "tensor2dFlat values sh =
     (case sh of (m, n) \<Rightarrow>
        if length values = m * n then Inr (Tensor2D m n values) else Inl ShapeError)"

definition zeros :: "nat \<times> nat \<Rightarrow> tensor" where
  "zeros sh = (case sh of (m, n) \<Rightarrow> Tensor2D m n (replicate (m * n) 0))"

text \<open>
  An element-wise binary operation with broadcasting: a scalar combines with every
  element; two matrices combine when each dimension agrees or is 1 on one side.
\<close>

fun binOp :: "(real \<Rightarrow> real \<Rightarrow> real) \<Rightarrow> tensor \<Rightarrow> tensor \<Rightarrow> error + tensor" where
  "binOp f (Scalar a) (Scalar b) = Inr (Scalar (f a b))"
| "binOp f (Tensor2D m n xs) (Scalar b) = Inr (Tensor2D m n (map (\<lambda>x. f x b) xs))"
| "binOp f (Scalar a) (Tensor2D m n ys) = Inr (Tensor2D m n (map (\<lambda>y. f a y) ys))"
| "binOp f (Tensor2D m n xs) (Tensor2D m' n' ys) =
     (if (m = m' \<or> m = 1 \<or> m' = 1) \<and> (n = n' \<or> n = 1 \<or> n' = 1) then
        let r = (if m = 1 then m' else m);
            c = (if n = 1 then n' else n)
        in Inr (Tensor2D r c
             (concat (map (\<lambda>i. map (\<lambda>j.
                 f (xs ! ((if m = 1 then 0 else i) * n + (if n = 1 then 0 else j)))
                   (ys ! ((if m' = 1 then 0 else i) * n' + (if n' = 1 then 0 else j))))
               [0..<c]) [0..<r])))
      else Inl ShapeError)"

definition tadd :: "tensor \<Rightarrow> tensor \<Rightarrow> error + tensor" where
  "tadd = binOp (\<lambda>x y. x + y)"

definition tsub :: "tensor \<Rightarrow> tensor \<Rightarrow> error + tensor" where
  "tsub = binOp (\<lambda>x y. x - y)"

definition tmul :: "tensor \<Rightarrow> tensor \<Rightarrow> error + tensor" where
  "tmul = binOp (\<lambda>x y. x * y)"

definition tdiv :: "tensor \<Rightarrow> tensor \<Rightarrow> error + tensor" where
  "tdiv = binOp (\<lambda>x y. x / y)"

definition tminimum :: "tensor \<Rightarrow> tensor \<Rightarrow> error + tensor" where
  "tminimum = binOp min"

definition tmaximum :: "tensor \<Rightarrow> tensor \<Rightarrow> error + tensor" where
  "tmaximum = binOp max"

fun matMul :: "tensor \<Rightarrow> tensor \<Rightarrow> error + tensor" where
  "matMul (Tensor2D m k xs) (Tensor2D k' n ys) =
     (if k = k' then
        Inr (Tensor2D m n
          (concat (map (\<lambda>i. map (\<lambda>j.
              sum_list (map (\<lambda>l. xs ! (i * k + l) * ys ! (l * n + j)) [0..<k]))
            [0..<n]) [0..<m])))
      else Inl ShapeError)"
| "matMul a b = Inl ShapeError"

definition relu :: "tensor \<Rightarrow> tensor" where
  "relu = mapT (max 0)"

definition tceil :: "tensor \<Rightarrow> tensor" where
  "tceil = mapT (\<lambda>x. of_int \<lceil>x\<rceil>)"

definition tsquare :: "tensor \<Rightarrow> tensor" where
  "tsquare = mapT (\<lambda>x. x * x)"

definition clipByValue :: "real \<Rightarrow> real \<Rightarrow> tensor \<Rightarrow> tensor" where
  "clipByValue lo hi = mapT (\<lambda>x. min hi (max lo x))"

definition tmean :: "tensor \<Rightarrow> error + tensor" where
  \<comment> \<open>\<open>mean()\<close> over all elements.\<close>
  "tmean t =
     (if tvals t = [] then Inl NotANumber
      else Inr (Scalar (sum_list (tvals t) / real (length (tvals t)))))"

definition randomNormal :: "(nat \<Rightarrow> real) \<Rightarrow> nat \<times> nat \<Rightarrow> real \<Rightarrow> real \<Rightarrow> tensor" where
  \<comment> \<open>\<open>dl.randomNormal(shape, mean, stdDev)\<close>; the standard normal draws of the call are
      the argument \<open>normals\<close>.\<close>
  "randomNormal normals sh mean stdDev =
     (case sh of (m, n) \<Rightarrow>
        Tensor2D m n (map (\<lambda>i. mean + stdDev * normals i) [0..<m * n]))"

section \<open>The optimizer\<close>

text \<open>
  The trainable variables are the two arrays \<open>weights\<close> and \<open>biases\<close>. The library's
  \<open>optimizer.minimize(f, returnCost)\<close> evaluates the cost closure \<open>f\<close> on the current
  variables, moves the variables against the gradient of \<open>f\<close>, and returns the cost it
  evaluated when \<open>returnCost\<close> holds and \<open>null\<close> otherwise. The gradient step itself
  belongs to the library; it is the parameter \<open>upd\<close> (learning rate, cost closure,
  variables before, variables after) of everything that trains.
\<close>

type_synonym variables = "tensor option list \<times> tensor option list"

type_synonym gradientStep = "real \<Rightarrow> (variables \<Rightarrow> error + tensor) \<Rightarrow> variables \<Rightarrow> variables"

definition minimize ::
  "gradientStep \<Rightarrow> real \<Rightarrow> (variables \<Rightarrow> error + tensor) \<Rightarrow> bool \<Rightarrow> variables
     \<Rightarrow> error + variables \<times> tensor option" where
  "minimize upd rate f returnCost vars =
     bindE (f vars) (\<lambda>value. Inr (upd rate f vars, if returnCost then Some value else None))"

definition dataSync0 :: "tensor \<Rightarrow> real option" where
  \<comment> \<open>\<open>t.dataSync()[0]\<close>\<close>
  "dataSync0 t = (case tvals t of [] \<Rightarrow> None | v # _ \<Rightarrow> Some v)"

section \<open>The class \<open>ComplementaryColorModel\<close>\<close>

record dataInterface =
  input :: "real list list"
  target :: "real list list"

text \<open>
  The fields of the class; \<open>optimizerRate\<close> is the learning rate held by
  \<open>this.optimizer\<close>, and \<open>data\<close> is \<open>None\<close> until the training data is generated.
\<close>

record model =
  learningRate :: real
  optimizerRate :: real
  sampleSize :: int
  batchSize :: nat
  data :: "dataInterface option"
  weights :: "tensor option list"
  biases :: "tensor option list"

definition newModel :: model where
  \<comment> \<open>The field initialisers and the constructor.\<close>
  "newModel = \<lparr>learningRate = 1 / 10, optimizerRate = 1 / 10, sampleSize = 50000,
     batchSize = 50, data = None, weights = [], biases = []\<rparr>"

definition normalizeColor :: "real list \<Rightarrow> real list" where
  "normalizeColor rgbColor = map (\<lambda>v. v / 255) rgbColor"

definition initializeWeights :: "(nat \<Rightarrow> real) \<Rightarrow> nat \<times> nat \<Rightarrow> nat \<Rightarrow> error + tensor" where
  "initializeWeights normals sh sizeOfPreviousLayer =
     tmul (randomNormal normals sh 0 1) (Scalar (sqrt (2 / real sizeOfPreviousLayer)))"

definition createFullyConnectedLayerWeights ::
  "(nat \<Rightarrow> real) \<Rightarrow> nat \<Rightarrow> nat \<Rightarrow> nat \<Rightarrow> model \<Rightarrow> error + model" where
  "createFullyConnectedLayerWeights normals sizeOfPreviousLayer sizeOfThisLayer layerIndex st =
     bindE (initializeWeights normals (sizeOfPreviousLayer, sizeOfThisLayer) sizeOfPreviousLayer)
       (\<lambda>w. Inr (st\<lparr>weights := arraySet (weights st) layerIndex w,
                    biases := arraySet (biases st) layerIndex (Scalar 0)\<rparr>))"

definition setupModel :: "(nat \<Rightarrow> nat \<Rightarrow> real) \<Rightarrow> model \<Rightarrow> error + model" where
  \<comment> \<open>\<open>rng k\<close> is the stream of normal draws of the \<open>k\<close>-th layer.\<close>
  "setupModel rng st =
     bindE (createFullyConnectedLayerWeights (rng 0) 3 64 0 st) (\<lambda>st1.
     bindE (createFullyConnectedLayerWeights (rng 1) 64 32 1 st1) (\<lambda>st2.
     bindE (createFullyConnectedLayerWeights (rng 2) 32 16 2 st2) (\<lambda>st3.
     createFullyConnectedLayerWeights (rng 3) 16 3 3 st3)))"

definition connectFullyConnectedLayer :: "model \<Rightarrow> tensor \<Rightarrow> nat \<Rightarrow> error + tensor" where
  "connectFullyConnectedLayer st inputLayer layerIndex =
     (case arrayGet (weights st) layerIndex of
        None \<Rightarrow> Inl TypeError
      | Some w \<Rightarrow>
          bindE (matMul inputLayer w) (\<lambda>product.
            case arrayGet (biases st) layerIndex of
              None \<Rightarrow> Inl TypeError
            | Some b \<Rightarrow> bindE (tadd product b) (\<lambda>s. Inr (relu s))))"

definition clampedColorTensor :: "tensor \<Rightarrow> error + tensor" where
  "clampedColorTensor normalizedRgbColorTensor =
     bindE (tminimum normalizedRgbColorTensor (Scalar 1)) (\<lambda>m. tmaximum m (Scalar 0))"

text \<open>The layer loop of \<open>predict\<close>, over the layer indices still to be connected.\<close>

fun forwardLayers :: "model \<Rightarrow> nat list \<Rightarrow> tensor \<Rightarrow> error + tensor" where
  "forwardLayers st [] outputTensor = Inr outputTensor"
| "forwardLayers st (layer # layers) outputTensor =
     bindE (connectFullyConnectedLayer st outputTensor layer) (forwardLayers st layers)"

definition layersOutput :: "model \<Rightarrow> real list list \<Rightarrow> error + tensor" where
  \<comment> \<open>The value of \<open>outputTensor\<close> in \<open>predict\<close> when the layer loop ends.\<close>
  "layersOutput st normalizedRgbColor =
     (case normalizedRgbColor of
        [] \<Rightarrow> Inl TypeError
      | row # _ \<Rightarrow>
          bindE (tensor2d normalizedRgbColor (length normalizedRgbColor, length row))
            (forwardLayers st [0..<length (weights st)]))"

definition predict :: "model \<Rightarrow> real list list \<Rightarrow> error + tensor" where
  "predict st normalizedRgbColor = bindE (layersOutput st normalizedRgbColor) clampedColorTensor"



definition loss :: "tensor \<Rightarrow> tensor \<Rightarrow> error + tensor" where
  "loss prediction actual =
     bindE (tsub prediction actual) (\<lambda>d. bindE (tmean (tsquare d)) tmean)"

definition batchLoss :: "model \<Rightarrow> dataInterface \<Rightarrow> variables \<Rightarrow> error + tensor" where
  \<comment> \<open>The cost closure that \<open>train1Batch\<close> hands to the optimizer.\<close>
  "batchLoss st batch vars =
     (case vars of (ws, bs) \<Rightarrow>
        bindE (predict (st\<lparr>weights := ws, biases := bs\<rparr>) (input batch)) (\<lambda>prediction.
          case target batch of
            [] \<Rightarrow> Inl TypeError
          | row # _ \<Rightarrow>
              bindE (tensor2d (target batch) (length (target batch), length row))
                (loss prediction)))"

definition train1Batch ::
  "gradientStep \<Rightarrow> model \<Rightarrow> dataInterface \<Rightarrow> bool \<Rightarrow> error + model \<times> tensor option" where
  "train1Batch upd st batch shouldFetchCost =
     bindE (minimize upd (optimizerRate st) (batchLoss st batch) shouldFetchCost
              (weights st, biases st))
       (\<lambda>r. case r of ((ws, bs), cost) \<Rightarrow> Inr (st\<lparr>weights := ws, biases := bs\<rparr>, cost))"

text \<open>
  The batch loop of \<open>train1Step\<close>. The index grows by the batch size, which the loop
  does not require to be positive, so the result is optional: \<open>None\<close> is a loop that
  runs forever. (It never does: with a batch size of 0 the first batch is empty and
  \<open>predict\<close> raises a TypeError on it; see \<open>train1Step_total\<close>.)
\<close>

partial_function (option) train1StepLoop ::
  "gradientStep \<Rightarrow> bool \<Rightarrow> real list list \<Rightarrow> real list list \<Rightarrow> int \<Rightarrow> nat \<Rightarrow> model \<Rightarrow> tensor
     \<Rightarrow> (error + model \<times> tensor) option" where
  "train1StepLoop upd shouldFetchCost inp tgt lastBatchIndex i st cost =
     (if int i \<le> lastBatchIndex then
        (case train1Batch upd st
                \<lparr>input = slice inp i (i + batchSize st), target = slice tgt i (i + batchSize st)\<rparr>
                shouldFetchCost of
           Inl e \<Rightarrow> Some (Inl e)
         | Inr (st', batchCost) \<Rightarrow>
             if shouldFetchCost then
               (case batchCost of
                  None \<Rightarrow> Some (Inl TypeError)
                | Some c \<Rightarrow>
                    (case tadd cost c of
                       Inl e \<Rightarrow> Some (Inl e)
                     | Inr cost' \<Rightarrow>
                         train1StepLoop upd shouldFetchCost inp tgt lastBatchIndex
                           (i + batchSize st') st' cost'))
             else train1StepLoop upd shouldFetchCost inp tgt lastBatchIndex
                    (i + batchSize st') st' cost)
      else Some (Inr (st, cost)))"

definition train1Step ::
  "gradientStep \<Rightarrow> model \<Rightarrow> int \<Rightarrow> bool \<Rightarrow> (error + model \<times> real option) option" where
  "train1Step upd st step shouldFetchCost =
     (let rate = learningRate st * (85 / 100) powi \<lfloor>real_of_int step / 42\<rfloor>;
          st1 = st\<lparr>optimizerRate := rate\<rparr>
      in case data st1 of
           None \<Rightarrow> Some (Inl TypeError)
         | Some d \<Rightarrow>
             (case train1StepLoop upd shouldFetchCost (input d) (target d)
                     (int (length (input d)) - int (batchSize st1)) 0 st1 (Scalar 0) of
                None \<Rightarrow> None
              | Some (Inl e) \<Rightarrow> Some (Inl e)
              | Some (Inr (st2, cost)) \<Rightarrow>
                  if shouldFetchCost then
                    (case tdiv cost (Scalar (real (batchSize st2))) of
                       Inl e \<Rightarrow> Some (Inl e)
                     | Inr q \<Rightarrow> Some (Inr (st2, dataSync0 q)))
                  else Some (Inr (st2, None))))"

definition generateRandomChannelValue :: "real \<Rightarrow> int" where
  \<comment> \<open>The argument is the value of \<open>Math.random()\<close>.\<close>
  "generateRandomChannelValue u = \<lfloor>u * 256\<rfloor>"

definition generateTrainingData :: "(nat \<Rightarrow> real) \<Rightarrow> int \<Rightarrow> model \<Rightarrow> error + model" where
  \<comment> \<open>\<open>rnd k\<close> is the value of the \<open>k\<close>-th call of \<open>Math.random()\<close>.\<close>
  "generateTrainingData rnd exampleCount st =
     bindE (newArray exampleCount) (\<lambda>n.
       let rawInputs = map (\<lambda>i. [generateRandomChannelValue (rnd (3 * i)),
                                  generateRandomChannelValue (rnd (3 * i + 1)),
                                  generateRandomChannelValue (rnd (3 * i + 2))]) [0..<n];
           inputArray = map (\<lambda>c. normalizeColor (map real_of_int c)) rawInputs
       in case those (map computeComplementaryColor rawInputs) of
            None \<Rightarrow> Inl NotANumber
          | Some complements \<Rightarrow>
              Inr (st\<lparr>data := Some \<lparr>input = inputArray,
                     target = map (\<lambda>c. normalizeColor (map real_of_int c)) complements\<rparr>\<rparr>))"

definition setupSession ::
  "(nat \<Rightarrow> nat \<Rightarrow> real) \<Rightarrow> (nat \<Rightarrow> real) \<Rightarrow> model \<Rightarrow> error + model" where
  "setupSession rng rnd st =
     bindE (setupModel rng st) (\<lambda>st1. generateTrainingData rnd (sampleSize st1) st1)"

text \<open>
  The loop of \<open>trainAndMaybeRender\<close> over the steps still to run; \<open>printed\<close> is what the
  loop prints (step and cost, on the steps that fetch the cost). Painting the table is
  left out.
\<close>

fun trainSteps ::
  "gradientStep \<Rightarrow> int list \<Rightarrow> model \<Rightarrow> (int \<times> real option) list
     \<Rightarrow> (error + model \<times> (int \<times> real option) list) option" where
  "trainSteps upd [] st printed = Some (Inr (st, printed))"
| "trainSteps upd (step # steps) st printed =
     (let isMod = (step mod 5 = 0)
      in case train1Step upd st step isMod of
           None \<Rightarrow> None
         | Some (Inl e) \<Rightarrow> Some (Inl e)
         | Some (Inr (st', cost)) \<Rightarrow>
             trainSteps upd steps st' (if isMod then printed @ [(step, cost)] else printed))"

definition trainAndMaybeRender ::
  "gradientStep \<Rightarrow> model \<Rightarrow> (error + model \<times> (int \<times> real option) list) option" where
  "trainAndMaybeRender upd st = trainSteps upd [1..500] st []"

section \<open>The eager variant\<close>

text \<open>
  The second source file declares the same class with a bias matrix per layer, its own
  weight initialisation, a four-layer \<open>predictRaw\<close> without the [0,1] clamp, and a
  \<open>predict\<close> that normalises its argument and denormalises its result. Its definitions
  carry the suffix \<open>_eager\<close>. The record \<open>model\<close> serves both classes (the eager
  class has no field \<open>sampleSize\<close>; its field \<open>inputTensor\<close>, written by
  \<open>predictRaw\<close> and read nowhere, is left out).
\<close>

definition initializeWeights_eager :: "(nat \<Rightarrow> real) \<Rightarrow> nat \<times> nat \<Rightarrow> nat \<Rightarrow> error + tensor" where
  "initializeWeights_eager normals sh sizeOfThisLayer =
     tmul (randomNormal normals sh (real sizeOfThisLayer) 1)
       (Scalar (sqrt (2 / real sizeOfThisLayer)))"

definition createFullyConnectedLayerWeights_eager ::
  "(nat \<Rightarrow> real) \<Rightarrow> nat \<Rightarrow> nat \<Rightarrow> nat \<Rightarrow> model \<Rightarrow> error + model" where
  "createFullyConnectedLayerWeights_eager normals sizeOfPreviousLayer layerIndex sizeOfThisLayer st =
     bindE (initializeWeights_eager normals (sizeOfPreviousLayer, sizeOfThisLayer) sizeOfThisLayer)
       (\<lambda>w. Inr (st\<lparr>weights := arraySet (weights st) layerIndex w,
                    biases := arraySet (biases st) layerIndex (zeros (1, sizeOfThisLayer))\<rparr>))"

definition setUpModel_eager :: "(nat \<Rightarrow> nat \<Rightarrow> real) \<Rightarrow> model \<Rightarrow> error + model" where
  "setUpModel_eager rng st =
     bindE (createFullyConnectedLayerWeights_eager (rng 0) 3 0 64 st) (\<lambda>st1.
     bindE (createFullyConnectedLayerWeights_eager (rng 1) 64 1 32 st1) (\<lambda>st2.
     bindE (createFullyConnectedLayerWeights_eager (rng 2) 32 2 16 st2) (\<lambda>st3.
     createFullyConnectedLayerWeights_eager (rng 3) 16 3 3 st3)))"

definition denormalizeColorTensor_eager :: "tensor \<Rightarrow> error + tensor" where
  "denormalizeColorTensor_eager normalizedRgbColor =
     bindE (tmul normalizedRgbColor (Scalar 255)) (\<lambda>m. Inr (tceil (clipByValue 0 255 m)))"

definition predictRaw_eager :: "model \<Rightarrow> real list \<Rightarrow> error + tensor" where
  \<comment> \<open>\<open>calculateFullyConnectedLayer\<close> is \<open>connectFullyConnectedLayer\<close> under another name.\<close>
  "predictRaw_eager st inp =
     bindE (tensor2dFlat inp (1, 3)) (\<lambda>inputTensor.
     bindE (connectFullyConnectedLayer st inputTensor 0) (\<lambda>l0.
     bindE (connectFullyConnectedLayer st l0 1) (\<lambda>l1.
     bindE (connectFullyConnectedLayer st l1 2) (\<lambda>l2.
     connectFullyConnectedLayer st l2 3))))"

definition predict_eager :: "model \<Rightarrow> real list \<Rightarrow> error + tensor" where
  "predict_eager st rgbColor =
     bindE (predictRaw_eager st (normalizeColor rgbColor)) denormalizeColorTensor_eager"

text \<open>
  The sample loop of the eager \<open>train1Batch\<close>, over the sample indices still to be
  trained on; \<open>cost\<close> is \<open>None\<close> for \<open>null\<close>.
\<close>

fun train1BatchLoop_eager ::
  "gradientStep \<Rightarrow> bool \<Rightarrow> nat list \<Rightarrow> model \<Rightarrow> tensor option \<Rightarrow> error + model \<times> tensor option" where
  "train1BatchLoop_eager upd shouldFetchCost [] st cost = Inr (st, cost)"
| "train1BatchLoop_eager upd shouldFetchCost (i # rest) st cost =
     (case data st of
        None \<Rightarrow> Inl TypeError
      | Some d \<Rightarrow>
          bindE (minimize upd (optimizerRate st)
                   (\<lambda>vars. case vars of (ws, bs) \<Rightarrow>
                      if i < length (input d) then
                        bindE (predict_eager (st\<lparr>weights := ws, biases := bs\<rparr>) (input d ! i))
                          (\<lambda>prediction.
                             if i < length (target d) then
                               bindE (tensor2dFlat (target d ! i) (1, length (target d ! i)))
                                 (loss prediction)
                             else Inl TypeError)
                      else Inl TypeError)
                   shouldFetchCost (weights st, biases st))
            (\<lambda>r. case r of ((ws, bs), c) \<Rightarrow>
               train1BatchLoop_eager upd shouldFetchCost rest (st\<lparr>weights := ws, biases := bs\<rparr>) c))"

definition train1Batch_eager ::
  "gradientStep \<Rightarrow> model \<Rightarrow> int \<Rightarrow> bool \<Rightarrow> error + model \<times> tensor option" where
  "train1Batch_eager upd st step shouldFetchCost =
     (let rate = learningRate st * (85 / 100) powi \<lfloor>real_of_int step / 42\<rfloor>;
          st1 = st\<lparr>optimizerRate := rate\<rparr>
      in case data st1 of
           None \<Rightarrow> Inl TypeError
         | Some d \<Rightarrow>
             train1BatchLoop_eager upd shouldFetchCost [0..<length (input d)] st1 None)"

section \<open>The forward pass on float32 tensors\<close>

text \<open>
  The library stores tensors as 32-bit floats. For the claims that bound the values of
  the forward pass the range of float32 matters, so the forward pass is modelled a second
  time on values that can overflow: a value is a real within the float32 range, an
  infinity, or NaN. Every operation brings its result into that range, a result of
  magnitude \<open>2^128 - 2^103\<close> or more becoming an infinity; rounding within the range
  stays exact. The arithmetic on infinities and NaN is IEEE's, and \<open>fmin\<close> and \<open>fmax\<close>
  are \<open>Math.min\<close> and \<open>Math.max\<close>, which return NaN when an argument is NaN.
\<close>

datatype f32 = Fin real | PosInf | NegInf | NaN

definition f32Bound :: real where
  "f32Bound = 2 ^ 128 - 2 ^ 103"

definition toF32 :: "real \<Rightarrow> f32" where
  "toF32 x = (if f32Bound \<le> x then PosInf else if x \<le> - f32Bound then NegInf else Fin x)"

fun fadd :: "f32 \<Rightarrow> f32 \<Rightarrow> f32" where
  "fadd NaN y = NaN"
| "fadd x NaN = NaN"
| "fadd PosInf NegInf = NaN"
| "fadd NegInf PosInf = NaN"
| "fadd PosInf y = PosInf"
| "fadd x PosInf = PosInf"
| "fadd NegInf y = NegInf"
| "fadd x NegInf = NegInf"
| "fadd (Fin a) (Fin b) = toF32 (a + b)"

fun fmul :: "f32 \<Rightarrow> f32 \<Rightarrow> f32" where
  "fmul NaN y = NaN"
| "fmul x NaN = NaN"
| "fmul (Fin a) (Fin b) = toF32 (a * b)"
| "fmul (Fin a) PosInf = (if a = 0 then NaN else if 0 < a then PosInf else NegInf)"
| "fmul (Fin a) NegInf = (if a = 0 then NaN else if 0 < a then NegInf else PosInf)"
| "fmul PosInf (Fin b) = (if b = 0 then NaN else if 0 < b then PosInf else NegInf)"
| "fmul NegInf (Fin b) = (if b = 0 then NaN else if 0 < b then NegInf else PosInf)"
| "fmul PosInf PosInf = PosInf"
| "fmul PosInf NegInf = NegInf"
| "fmul NegInf PosInf = NegInf"
| "fmul NegInf NegInf = PosInf"

fun fmax :: "f32 \<Rightarrow> f32 \<Rightarrow> f32" where
  "fmax NaN y = NaN"
| "fmax x NaN = NaN"
| "fmax PosInf y = PosInf"
| "fmax x PosInf = PosInf"
| "fmax NegInf y = y"
| "fmax x NegInf = x"
| "fmax (Fin a) (Fin b) = Fin (max a b)"

fun fmin :: "f32 \<Rightarrow> f32 \<Rightarrow> f32" where
  "fmin NaN y = NaN"
| "fmin x NaN = NaN"
| "fmin NegInf y = NegInf"
| "fmin x NegInf = NegInf"
| "fmin PosInf y = y"
| "fmin x PosInf = x"
| "fmin (Fin a) (Fin b) = Fin (min a b)"

fun fle :: "f32 \<Rightarrow> f32 \<Rightarrow> bool" where
  \<comment> \<open>\<open>x <= y\<close> on floats: false as soon as one side is NaN.\<close>
  "fle NaN y = False"
| "fle x NaN = False"
| "fle NegInf y = True"
| "fle x PosInf = True"
| "fle PosInf y = False"
| "fle x NegInf = False"
| "fle (Fin a) (Fin b) = (a \<le> b)"

datatype matrix32 = Matrix32 nat nat "f32 list"

fun mrows :: "matrix32 \<Rightarrow> nat" where
  "mrows (Matrix32 m n xs) = m"

fun mcols :: "matrix32 \<Rightarrow> nat" where
  "mcols (Matrix32 m n xs) = n"

fun mvals :: "matrix32 \<Rightarrow> f32 list" where
  "mvals (Matrix32 m n xs) = xs"

fun mapM32 :: "(f32 \<Rightarrow> f32) \<Rightarrow> matrix32 \<Rightarrow> matrix32" where
  "mapM32 f (Matrix32 m n xs) = Matrix32 m n (map f xs)"

definition tensor2d_f32 :: "real list list \<Rightarrow> nat \<times> nat \<Rightarrow> error + matrix32" where
  \<comment> \<open>\<open>dl.tensor2d(values, shape)\<close> on a nested array of JavaScript numbers.\<close>
  "tensor2d_f32 values sh =
     (case sh of (m, n) \<Rightarrow>
        if length (concat values) = m * n then Inr (Matrix32 m n (map toF32 (concat values)))
        else Inl ShapeError)"

definition tensor2dFlat_f32 :: "real list \<Rightarrow> nat \<times> nat \<Rightarrow> error + matrix32" where
  "tensor2dFlat_f32 values sh =
     (case sh of (m, n) \<Rightarrow>
        if length values = m * n then Inr (Matrix32 m n (map toF32 values)) else Inl ShapeError)"

fun matMul32 :: "matrix32 \<Rightarrow> matrix32 \<Rightarrow> error + matrix32" where
  "matMul32 (Matrix32 m k xs) (Matrix32 k' n ys) =
     (if k = k' then
        Inr (Matrix32 m n
          (concat (map (\<lambda>i. map (\<lambda>j.
              foldl fadd (Fin 0) (map (\<lambda>l. fmul (xs ! (i * k + l)) (ys ! (l * n + j))) [0..<k]))
            [0..<n]) [0..<m])))
      else Inl ShapeError)"

definition addScalar32 :: "matrix32 \<Rightarrow> f32 \<Rightarrow> matrix32" where
  \<comment> \<open>\<open>t.add(b)\<close> for a bias of rank 0.\<close>
  "addScalar32 t b = mapM32 (\<lambda>x. fadd x b) t"

fun add32 :: "matrix32 \<Rightarrow> matrix32 \<Rightarrow> error + matrix32" where
  \<comment> \<open>\<open>t.add(b)\<close> for a bias of rank 2, with broadcasting.\<close>
  "add32 (Matrix32 m n xs) (Matrix32 m' n' ys) =
     (if (m = m' \<or> m = 1 \<or> m' = 1) \<and> (n = n' \<or> n = 1 \<or> n' = 1) then
        let r = (if m = 1 then m' else m);
            c = (if n = 1 then n' else n)
        in Inr (Matrix32 r c
             (concat (map (\<lambda>i. map (\<lambda>j.
                 fadd (xs ! ((if m = 1 then 0 else i) * n + (if n = 1 then 0 else j)))
                      (ys ! ((if m' = 1 then 0 else i) * n' + (if n' = 1 then 0 else j))))
               [0..<c]) [0..<r])))
      else Inl ShapeError)"

definition relu32 :: "matrix32 \<Rightarrow> matrix32" where
  "relu32 = mapM32 (\<lambda>x. fmax (Fin 0) x)"

definition minimumScalar32 :: "matrix32 \<Rightarrow> f32 \<Rightarrow> matrix32" where
  "minimumScalar32 t c = mapM32 (\<lambda>x. fmin x c) t"

definition maximumScalar32 :: "matrix32 \<Rightarrow> f32 \<Rightarrow> matrix32" where
  "maximumScalar32 t c = mapM32 (\<lambda>x. fmax x c) t"

text \<open>
  The variables the forward pass reads, with the ranks the two classes declare: matrices
  of weights, and biases that are scalars in the first class and matrices in the eager
  one.
\<close>

record model32 =
  weights32 :: "matrix32 option list"
  biases32 :: "f32 option list"

record model32_eager =
  weights32e :: "matrix32 option list"
  biases32e :: "matrix32 option list"

definition connectFullyConnectedLayer_f32 :: "model32 \<Rightarrow> matrix32 \<Rightarrow> nat \<Rightarrow> error + matrix32" where
  "connectFullyConnectedLayer_f32 st inputLayer layerIndex =
     (case arrayGet (weights32 st) layerIndex of
        None \<Rightarrow> Inl TypeError
      | Some w \<Rightarrow>
          bindE (matMul32 inputLayer w) (\<lambda>product.
            case arrayGet (biases32 st) layerIndex of
              None \<Rightarrow> Inl TypeError
            | Some b \<Rightarrow> Inr (relu32 (addScalar32 product b))))"

definition clampedColorTensor_f32 :: "matrix32 \<Rightarrow> matrix32" where
  "clampedColorTensor_f32 normalizedRgbColorTensor =
     maximumScalar32 (minimumScalar32 normalizedRgbColorTensor (Fin 1)) (Fin 0)"

fun forwardLayers_f32 :: "model32 \<Rightarrow> nat list \<Rightarrow> matrix32 \<Rightarrow> error + matrix32" where
  "forwardLayers_f32 st [] outputTensor = Inr outputTensor"
| "forwardLayers_f32 st (layer # layers) outputTensor =
     bindE (connectFullyConnectedLayer_f32 st outputTensor layer) (forwardLayers_f32 st layers)"

definition layersOutput_f32 :: "model32 \<Rightarrow> real list list \<Rightarrow> error + matrix32" where
  \<comment> \<open>The value of \<open>outputTensor\<close> in \<open>predict\<close> when the layer loop ends.\<close>
  "layersOutput_f32 st normalizedRgbColor =
     (case normalizedRgbColor of
        [] \<Rightarrow> Inl TypeError
      | row # _ \<Rightarrow>
          bindE (tensor2d_f32 normalizedRgbColor (length normalizedRgbColor, length row))
            (forwardLayers_f32 st [0..<length (weights32 st)]))"

definition predict_f32 :: "model32 \<Rightarrow> real list list \<Rightarrow> error + matrix32" where
  "predict_f32 st normalizedRgbColor =
     bindE (layersOutput_f32 st normalizedRgbColor) (\<lambda>t. Inr (clampedColorTensor_f32 t))"

definition calculateFullyConnectedLayer_f32 ::
  "model32_eager \<Rightarrow> matrix32 \<Rightarrow> nat \<Rightarrow> error + matrix32" where
  "calculateFullyConnectedLayer_f32 st inputLayer layerIndex =
     (case arrayGet (weights32e st) layerIndex of
        None \<Rightarrow> Inl TypeError
      | Some w \<Rightarrow>
          bindE (matMul32 inputLayer w) (\<lambda>product.
            case arrayGet (biases32e st) layerIndex of
              None \<Rightarrow> Inl TypeError
            | Some b \<Rightarrow> bindE (add32 product b) (\<lambda>s. Inr (relu32 s))))"

definition predictRaw_eager_f32 :: "model32_eager \<Rightarrow> real list \<Rightarrow> error + matrix32" where
  "predictRaw_eager_f32 st inp =
     bindE (tensor2dFlat_f32 inp (1, 3)) (\<lambda>inputTensor.
     bindE (calculateFullyConnectedLayer_f32 st inputTensor 0) (\<lambda>l0.
     bindE (calculateFullyConnectedLayer_f32 st l0 1) (\<lambda>l1.
     bindE (calculateFullyConnectedLayer_f32 st l1 2) (\<lambda>l2.
     calculateFullyConnectedLayer_f32 st l2 3))))"

section \<open>The words of the specification\<close>

text \<open>
  The batches of one step as the specification describes them: the contiguous slices of
  \<open>batchSize\<close> samples in dataset order, a trailing partial batch dropped.
\<close>

definition specBatchStarts :: "nat \<Rightarrow> nat \<Rightarrow> nat list" where
  "specBatchStarts len bs = map (\<lambda>k. k * bs) [0..<len div bs]"

definition batchAt :: "real list list \<Rightarrow> real list list \<Rightarrow> nat \<Rightarrow> nat \<Rightarrow> dataInterface" where
  \<comment> \<open>The batch of \<open>bs\<close> samples that starts at index \<open>i\<close>.\<close>
  "batchAt inp tgt bs i = \<lparr>input = slice inp i (i + bs), target = slice tgt i (i + bs)\<rparr>"

definition specBatches :: "dataInterface \<Rightarrow> nat \<Rightarrow> dataInterface list" where
  "specBatches d bs =
     map (batchAt (input d) (target d) bs) (specBatchStarts (length (input d)) bs)"

text \<open>Training on a list of batches in order, the costs added up as the step adds them.\<close>

fun runBatches ::
  "gradientStep \<Rightarrow> bool \<Rightarrow> dataInterface list \<Rightarrow> model \<Rightarrow> tensor \<Rightarrow> error + model \<times> tensor" where
  "runBatches upd shouldFetchCost [] st cost = Inr (st, cost)"
| "runBatches upd shouldFetchCost (batch # batches) st cost =
     (case train1Batch upd st batch shouldFetchCost of
        Inl e \<Rightarrow> Inl e
      | Inr (st', batchCost) \<Rightarrow>
          if shouldFetchCost then
            (case batchCost of
               None \<Rightarrow> Inl TypeError
             | Some c \<Rightarrow>
                 (case tadd cost c of
                    Inl e \<Rightarrow> Inl e
                  | Inr cost' \<Rightarrow> runBatches upd shouldFetchCost batches st' cost'))
          else runBatches upd shouldFetchCost batches st' cost)"


text \<open>
  The cost of each batch of a list, each evaluated on the variables its batch starts
  from; the mean cost of a step is the mean of this list.
\<close>

fun batchCosts :: "gradientStep \<Rightarrow> dataInterface list \<Rightarrow> model \<Rightarrow> real list" where
  "batchCosts upd [] st = []"
| "batchCosts upd (batch # batches) st =
     (case train1Batch upd st batch True of
        Inr (st', Some (Scalar c)) \<Rightarrow> c # batchCosts upd batches st'
      | _ \<Rightarrow> [])"

text \<open>
  The forward pass as the specification words it: each layer is
  \<open>relu (input \<cdot> W + b)\<close>, written out element by element, and the output of the last
  layer is clamped with \<open>min (1, max (0, x))\<close>.
\<close>

definition specLayer :: "matrix32 \<Rightarrow> f32 \<Rightarrow> matrix32 \<Rightarrow> matrix32" where
  "specLayer W b X =
     (case W of Matrix32 k n ws \<Rightarrow>
      case X of Matrix32 m k' xs \<Rightarrow>
        Matrix32 m n
          (concat (map (\<lambda>i. map (\<lambda>j.
              fmax (Fin 0)
                (fadd (foldl fadd (Fin 0)
                         (map (\<lambda>l. fmul (xs ! (i * k' + l)) (ws ! (l * n + j))) [0..<k']))
                      b))
            [0..<n]) [0..<m])))"

fun specForward :: "(matrix32 \<times> f32) list \<Rightarrow> matrix32 \<Rightarrow> error + matrix32" where
  "specForward [] X = Inr X"
| "specForward ((W, b) # layers) X =
     (if mcols X = mrows W then specForward layers (specLayer W b X) else Inl ShapeError)"

definition specLayer_eager :: "matrix32 \<Rightarrow> matrix32 \<Rightarrow> matrix32 \<Rightarrow> matrix32" where
  \<comment> \<open>The same layer for a bias that is a matrix of one row.\<close>
  "specLayer_eager W B X =
     (case W of Matrix32 k n ws \<Rightarrow>
      case B of Matrix32 r c bs \<Rightarrow>
      case X of Matrix32 m k' xs \<Rightarrow>
        Matrix32 m n
          (concat (map (\<lambda>i. map (\<lambda>j.
              fmax (Fin 0)
                (fadd (foldl fadd (Fin 0)
                         (map (\<lambda>l. fmul (xs ! (i * k' + l)) (ws ! (l * n + j))) [0..<k']))
                      (bs ! j)))
            [0..<n]) [0..<m])))"

definition specClamp :: "f32 \<Rightarrow> f32" where
  "specClamp x = fmin (Fin 1) (fmax (Fin 0) x)"

section \<open>Concrete inputs\<close>

text \<open>
  Inputs on which the theorems below are evaluated: a gradient step that leaves the
  variables where they are (the step of a vanishing gradient), and a network of four
  small layers.
\<close>

definition frozenStep :: gradientStep where
  "frozenStep rate f vars = vars"

definition tinyModel :: model where
  "tinyModel = newModel\<lparr>
     weights := [Some (Tensor2D 3 2 [1, 0, 0, 1, 1, - 1]), Some (Tensor2D 2 1 [1, 1]),
                 Some (Tensor2D 1 1 [1]), Some (Tensor2D 1 3 [2, 1 / 4, - 1])],
     biases := [Some (Scalar 0), Some (Scalar 0), Some (Scalar 0), Some (Scalar 0)]\<rparr>"

definition tinySession :: model where
  \<comment> \<open>The small network with seven samples, trained in batches of two.\<close>
  "tinySession = tinyModel\<lparr>
     batchSize := 2,
     data := Some \<lparr>
       input = [[1 / 5, 2 / 5, 1 / 5], [0, 0, 0], [1, 1, 1], [0, 1, 0],
                [1 / 5, 2 / 5, 1 / 5], [0, 0, 0], [1, 0, 0]],
       target = [[1, 0, 0], [0, 0, 0], [1, 1, 1], [0, 1, 0],
                 [0, 0, 0], [1, 1, 1], [0, 1, 1]]\<rparr>\<rparr>"

definition zeroStreams :: "nat \<Rightarrow> nat \<Rightarrow> real" where
  \<comment> \<open>Normal draws that are all 0.\<close>
  "zeroStreams k i = 0"

definition zeroRandom :: "nat \<Rightarrow> real" where
  \<comment> \<open>A run of \<open>Math.random()\<close> that returns 0 each time.\<close>
  "zeroRandom k = 0"

text \<open>
  The small network again on float32 values, in both classes, and a network with finite
  weights on which a finite input overflows.
\<close>

definition tinyModel32 :: model32 where
  "tinyModel32 = \<lparr>
     weights32 = [Some (Matrix32 3 2 [Fin 1, Fin 0, Fin 0, Fin 1, Fin 1, Fin (- 1)]),
                  Some (Matrix32 2 1 [Fin 1, Fin 1]),
                  Some (Matrix32 1 1 [Fin 1]),
                  Some (Matrix32 1 3 [Fin 2, Fin (1 / 4), Fin (- 1)])],
     biases32 = [Some (Fin 0), Some (Fin 0), Some (Fin 0), Some (Fin 0)]\<rparr>"

definition overflowModel32 :: model32 where
  \<comment> \<open>Finite weights on which the input \<open>2^127\<close> overflows in the first layer.\<close>
  "overflowModel32 = \<lparr>
     weights32 = [Some (Matrix32 3 2 [Fin 2, Fin 2, Fin 0, Fin 0, Fin 0, Fin 0]),
                  Some (Matrix32 2 1 [Fin 1, Fin (- 1)]),
                  Some (Matrix32 1 1 [Fin 1]),
                  Some (Matrix32 1 3 [Fin 2, Fin (1 / 4), Fin (- 1)])],
     biases32 = [Some (Fin 0), Some (Fin 0), Some (Fin 0), Some (Fin 0)]\<rparr>"

definition tinyModel32_eager :: model32_eager where
  "tinyModel32_eager = \<lparr>
     weights32e = [Some (Matrix32 3 2 [Fin 1, Fin 0, Fin 0, Fin 1, Fin 1, Fin (- 1)]),
                   Some (Matrix32 2 1 [Fin 1, Fin 1]),
                   Some (Matrix32 1 1 [Fin 1]),
                   Some (Matrix32 1 3 [Fin 2, Fin (1 / 4), Fin (- 1)])],
     biases32e = [Some (Matrix32 1 2 [Fin 0, Fin 0]), Some (Matrix32 1 1 [Fin 0]),
                  Some (Matrix32 1 1 [Fin 0]), Some (Matrix32 1 3 [Fin 0, Fin 0, Fin 0])]\<rparr>"

section \<open>Properties of the complementary colour\<close>

lemma mathRound_of_int: "mathRound (real_of_int n) = n"
  unfolding mathRound_def by linarith

lemma mathRound_unit_range:
  assumes "0 \<le> v" and "v \<le> 1"
  shows "0 \<le> mathRound (v * 255) \<and> mathRound (v * 255) \<le> 255"
proof -
  have "0 \<le> v * 255 + 1 / 2" using assms by simp
  then have lo: "0 \<le> \<lfloor>v * 255 + 1 / 2\<rfloor>" by simp
  have "v * 255 + 1 / 2 < 256" using assms by simp
  then have "\<lfloor>v * 255 + 1 / 2\<rfloor> < 256" by linarith
  with lo show ?thesis unfolding mathRound_def by simp
qed

lemma convex_unit:
  fixes p q a :: real
  assumes "0 \<le> p" "p \<le> 1" "0 \<le> q" "q \<le> 1" "0 \<le> a" "a \<le> 1"
  shows "0 \<le> p + (q - p) * a \<and> p + (q - p) * a \<le> 1"
proof -
  have e: "p + (q - p) * a = p * (1 - a) + q * a" by (simp add: algebra_simps)
  have "0 \<le> p * (1 - a)" "0 \<le> q * a" using assms by simp_all
  then have lo: "0 \<le> p * (1 - a) + q * a" by simp
  have "p * (1 - a) \<le> 1 * (1 - a)" using assms by (intro mult_right_mono) simp_all
  moreover have "q * a \<le> 1 * a" using assms by (intro mult_right_mono) simp_all
  ultimately have "p * (1 - a) + q * a \<le> 1" by simp
  with lo e show ?thesis by simp
qed

lemma hue2rgb_unit:
  assumes "0 \<le> p" "p \<le> 1" "0 \<le> q" "q \<le> 1" "- 1 \<le> t" "t \<le> 2"
  shows "0 \<le> hue2rgb p q t \<and> hue2rgb p q t \<le> 1"
proof -
  define t1 where "t1 = (if t < 0 then t + 1 else t)"
  define u where "u = (if t1 > 1 then t1 - 1 else t1)"
  have u: "0 \<le> u" "u \<le> 1" using assms by (auto simp: u_def t1_def)
  have h: "hue2rgb p q t = (if u < 1 / 6 then p + (q - p) * 6 * u
         else if u < 1 / 2 then q
         else if u < 2 / 3 then p + (q - p) * (2 / 3 - u) * 6
         else p)"
    by (simp add: hue2rgb_def Let_def u_def t1_def)
  consider "u < 1/6" | "\<not> u < 1/6" "u < 1/2" | "\<not> u < 1/2" "u < 2/3" | "\<not> u < 2/3" by linarith
  then show ?thesis
  proof cases
    case 1
    have a: "0 \<le> 6 * u" "6 * u \<le> 1" using u 1 by simp_all
    have "hue2rgb p q t = p + (q - p) * (6 * u)" using h 1 by simp
    then show ?thesis using convex_unit[OF assms(1-4) a] by simp
  next
    case 2 then show ?thesis using h assms by simp
  next
    case 3
    have a: "0 \<le> (2 / 3 - u) * 6" "(2 / 3 - u) * 6 \<le> 1" using u 3 by simp_all
    have "hue2rgb p q t = p + (q - p) * ((2 / 3 - u) * 6)" using h 3 by simp
    then show ?thesis using convex_unit[OF assms(1-4) a] by simp
  next
    case 4 then show ?thesis using h assms by simp
  qed
qed

lemma shiftHue_unit:
  assumes "- (10472 / 10000) \<le> h" "h \<le> 62832 / 10000 + 10472 / 10000"
  shows "0 \<le> shiftHue h \<and> shiftHue h \<le> 1"
  using assms unfolding shiftHue_def Let_def by (auto simp: field_simps)


lemma rgbToHsl_range:
  assumes r: "0 \<le> r" "r \<le> 1" and g: "0 \<le> g" "g \<le> 1" and b: "0 \<le> b" "b \<le> 1"
    and res: "rgbToHsl r g b = (h, s, l)"
  shows "- (10472 / 10000) \<le> h \<and> h \<le> 62832 / 10000 + 10472 / 10000
         \<and> 0 \<le> s \<and> s \<le> 1 \<and> 0 \<le> l \<and> l \<le> 1"
proof -
  define mx where "mx = max r (max g b)"
  define mn where "mn = min r (min g b)"
  have mxr: "0 \<le> mx" "mx \<le> 1" "0 \<le> mn" "mn \<le> 1" "mn \<le> mx"
    using r g b by (auto simp: mx_def mn_def)
  have l: "0 \<le> (mx + mn) / 2" "(mx + mn) / 2 \<le> 1" using mxr by simp_all
  show ?thesis
  proof (cases "mx = mn")
    case True
    then show ?thesis using res l unfolding rgbToHsl_def Let_def mx_def[symmetric] mn_def[symmetric]
      by auto
  next
    case False
    define d where "d = mx - mn"
    have d: "0 < d" using False mxr by (simp add: d_def)
    have frac: "\<And>x y. mn \<le> x \<Longrightarrow> x \<le> mx \<Longrightarrow> mn \<le> y \<Longrightarrow> y \<le> mx \<Longrightarrow>
       - 1 \<le> (x - y) / d \<and> (x - y) / d \<le> 1"
      using d by (simp add: d_def field_simps)
    have ch: "mn \<le> r" "r \<le> mx" "mn \<le> g" "g \<le> mx" "mn \<le> b" "b \<le> mx"
      by (auto simp: mx_def mn_def)
    have s1: "0 \<le> d / (2 - mx - mn) \<and> d / (2 - mx - mn) \<le> 1" if "(mx + mn) / 2 > 1 / 2"
      using that mxr d by (simp add: d_def field_simps)
    have s2: "0 \<le> d / (mx + mn) \<and> d / (mx + mn) \<le> 1"
      using mxr d by (simp add: d_def field_simps)
    have hb: "\<And>x y c. mn \<le> x \<Longrightarrow> x \<le> mx \<Longrightarrow> mn \<le> y \<Longrightarrow> y \<le> mx \<Longrightarrow>
        0 \<le> c \<Longrightarrow> c \<le> 62832 / 10000 \<Longrightarrow>
        - (10472 / 10000) \<le> 10472 / 10000 * (x - y) / d + c
        \<and> 10472 / 10000 * (x - y) / d + c \<le> 62832 / 10000 + 10472 / 10000"
    proof -
      fix x y c :: real
      assume a: "mn \<le> x" "x \<le> mx" "mn \<le> y" "y \<le> mx" "0 \<le> c" "c \<le> 62832 / 10000"
      from frac[OF a(1-4)] have f: "- 1 \<le> (x - y) / d" "(x - y) / d \<le> 1" by simp_all
      define z where "z = (x - y) / d"
      have e: "10472 / 10000 * (x - y) / d = 10472 / 10000 * z" by (simp add: z_def)
      have z: "- 1 \<le> z" "z \<le> 1" using f by (simp_all add: z_def)
      show "- (10472 / 10000) \<le> 10472 / 10000 * (x - y) / d + c
        \<and> 10472 / 10000 * (x - y) / d + c \<le> 62832 / 10000 + 10472 / 10000"
        unfolding e using z a(5,6) by linarith
    qed
    define S where "S = (if (mx + mn) / 2 > 1 / 2 then d / (2 - mx - mn) else d / (mx + mn))"
    define H where "H = (if mx = r \<and> g \<ge> b then 10472 / 10000 * (g - b) / d
                    else if mx = r \<and> g < b then 10472 / 10000 * (g - b) / d + 62832 / 10000
                    else if mx = g then 10472 / 10000 * (b - r) / d + 20944 / 10000
                    else if mx = b then 10472 / 10000 * (r - g) / d + 41888 / 10000
                    else (mx + mn) / 2)"
    have "rgbToHsl r g b = (H, S, (mx + mn) / 2)"
      using False unfolding rgbToHsl_def Let_def mx_def[symmetric] mn_def[symmetric]
        d_def[symmetric] S_def H_def
      by (simp only: if_False)
    with res have sl: "s = S" "l = (mx + mn) / 2" and hh: "h = H" by simp_all
    have mxcases: "mx = r \<or> mx = g \<or> mx = b" by (auto simp: mx_def max_def)
    have hr: "- (10472 / 10000) \<le> h \<and> h \<le> 62832 / 10000 + 10472 / 10000"
    proof -
      have c0: "(0::real) \<le> 0" "(0::real) \<le> 62832 / 10000" by simp_all
      have c1: "(0::real) \<le> 62832 / 10000" "(62832 / 10000 :: real) \<le> 62832 / 10000" by simp_all
      have c2: "(0::real) \<le> 20944 / 10000" "(20944 / 10000 :: real) \<le> 62832 / 10000" by simp_all
      have c3: "(0::real) \<le> 41888 / 10000" "(41888 / 10000 :: real) \<le> 62832 / 10000" by simp_all
      note b0 = hb[OF ch(3,4) ch(5,6) c0]
      note b1 = hb[OF ch(3,4) ch(5,6) c1]
      note b2 = hb[OF ch(5,6) ch(1,2) c2]
      note b3 = hb[OF ch(1,2) ch(3,4) c3]
      show ?thesis using mxcases b0 b1 b2 b3 unfolding hh H_def by auto
    qed
    have sr: "0 \<le> s \<and> s \<le> 1" using s1 s2 unfolding sl S_def by auto
    show ?thesis using hr sr l sl(2) by simp

  qed
qed


lemma hslToRgb_unit:
  assumes h: "0 \<le> h" "h \<le> 1" and s: "0 \<le> s" "s \<le> 1" and l: "0 \<le> l" "l \<le> 1"
    and v: "v \<in> set (hslToRgb h s l)"
  shows "0 \<le> v \<and> v \<le> 1"
proof (cases "s = 0")
  case True
  then show ?thesis using v l by (simp add: hslToRgb_def)
next
  case False
  define q where "q = (if l < 1 / 2 then l * (1 + s) else l + s - l * s)"
  define p where "p = 2 * l - q"
  have ls: "0 \<le> l * s" "l * s \<le> l" "l * s \<le> s"
    using s l by (simp_all add: mult_left_le mult_left_le_one_le mult_le_cancel_right2)
  have "0 \<le> (1 - l) * (1 - s)" using s l by simp
  then have ls': "l + s \<le> 1 + l * s" by (simp add: algebra_simps)
  have q: "0 \<le> q" "q \<le> 1" using ls ls' s l by (auto simp: q_def algebra_simps)
  have p: "0 \<le> p" "p \<le> 1" using ls ls' s l by (auto simp: p_def q_def algebra_simps)
  have t: "- 1 \<le> h + 1 / 3" "h + 1 / 3 \<le> 2" "- 1 \<le> h" "h \<le> 2"
    "- 1 \<le> h - 1 / 3" "h - 1 / 3 \<le> 2" using h by simp_all
  have "hslToRgb h s l = [hue2rgb p q (h + 1 / 3), hue2rgb p q h, hue2rgb p q (h - 1 / 3)]"
    using False by (simp add: hslToRgb_def Let_def p_def q_def)
  with v have "v = hue2rgb p q (h + 1 / 3) \<or> v = hue2rgb p q h \<or> v = hue2rgb p q (h - 1 / 3)"
    by auto
  then show ?thesis
    using hue2rgb_unit[OF p(1,2) q(1,2) t(1,2)] hue2rgb_unit[OF p(1,2) q(1,2) t(3,4)]
      hue2rgb_unit[OF p(1,2) q(1,2) t(5,6)] by blast
qed

lemma length_hslToRgb: "length (hslToRgb h s l) = 3"
  by (simp add: hslToRgb_def Let_def)

text \<open>
  C1. For three integer channels, each from 0 to 255, \<open>computeComplementaryColor\<close>
  returns three integers, each from 0 to 255.
\<close>

theorem complement_in_range:
  assumes "0 \<le> r" "r \<le> 255" "0 \<le> g" "g \<le> 255" "0 \<le> b" "b \<le> 255"
  shows "\<exists>out. computeComplementaryColor [r, g, b] = Some out \<and> length out = 3
           \<and> (\<forall>v \<in> set out. 0 \<le> v \<and> v \<le> 255)"
proof -
  obtain h s l where hsl:
    "rgbToHsl (real_of_int r / 255) (real_of_int g / 255) (real_of_int b / 255) = (h, s, l)"
    by (metis prod_cases3)
  have n: "0 \<le> real_of_int r / 255" "real_of_int r / 255 \<le> 1"
    "0 \<le> real_of_int g / 255" "real_of_int g / 255 \<le> 1"
    "0 \<le> real_of_int b / 255" "real_of_int b / 255 \<le> 1"
    using assms by simp_all
  from rgbToHsl_range[OF n hsl]
  have rng: "- (10472 / 10000) \<le> h" "h \<le> 62832 / 10000 + 10472 / 10000"
    "0 \<le> s" "s \<le> 1" "0 \<le> l" "l \<le> 1" by simp_all
  from shiftHue_unit[OF rng(1,2)] have sh: "0 \<le> shiftHue h" "shiftHue h \<le> 1" by simp_all
  define out where "out = map (\<lambda>v. mathRound (v * 255)) (hslToRgb (shiftHue h) s l)"
  have res: "computeComplementaryColor [r, g, b] = Some out"
    by (simp add: computeComplementaryColor_def hsl out_def)
  have len: "length out = 3" by (simp add: out_def length_hslToRgb)
  have "0 \<le> w \<and> w \<le> 255" if "w \<in> set out" for w
  proof -
    from that obtain v where v: "v \<in> set (hslToRgb (shiftHue h) s l)" "w = mathRound (v * 255)"
      by (auto simp: out_def)
    from hslToRgb_unit[OF sh rng(3-6) v(1)] have "0 \<le> v" "v \<le> 1" by simp_all
    then show ?thesis using mathRound_unit_range v(2) by simp
  qed
  with res len show ?thesis by blast
qed

lemma complement_red: "computeComplementaryColor [255, 0, 0] = Some [0, 255, 255]"
  by (simp add: computeComplementaryColor_def rgbToHsl_def shiftHue_def hslToRgb_def
      hue2rgb_def mathRound_def Let_def)

lemma complement_green_mix: "computeComplementaryColor [10, 200, 30] = Some [200, 10, 180]"
  by (simp add: computeComplementaryColor_def rgbToHsl_def shiftHue_def hslToRgb_def
      hue2rgb_def mathRound_def Let_def)

theorem complement_in_range_witness:
  "computeComplementaryColor [255, 0, 0] = Some [0, 255, 255]
   \<and> computeComplementaryColor [10, 200, 30] = Some [200, 10, 180]
   \<and> length [200, 10, 180 :: int] = 3 \<and> (0 :: int) \<le> 10 \<and> (200 :: int) \<le> 255"
  using complement_in_range [of 255 0 0] complement_in_range [of 10 200 30]
    complement_red complement_green_mix
  by simp


text \<open>
  C5. A gray input (three equal channels, each an integer from 0 to 255) is returned
  unchanged by \<open>computeComplementaryColor\<close>.
\<close>

theorem achromatic_fixed:
  assumes "0 \<le> v" and "v \<le> 255"
  shows "computeComplementaryColor [v, v, v] = Some [v, v, v]"
  by (simp add: computeComplementaryColor_def rgbToHsl_def hslToRgb_def mathRound_of_int)

theorem achromatic_fixed_witness:
  "computeComplementaryColor [0, 0, 0] = Some [0, 0, 0]
   \<and> computeComplementaryColor [255, 255, 255] = Some [255, 255, 255]
   \<and> computeComplementaryColor [128, 128, 128] = Some [128, 128, 128]"
  using achromatic_fixed [of 0] achromatic_fixed [of 255] achromatic_fixed [of 128]
  by simp

section \<open>Properties of the forward pass\<close>

lemma bindE_Inr_iff: "bindE r f = Inr y \<longleftrightarrow> (\<exists>x. r = Inr x \<and> f x = Inr y)"
  by (cases r) (simp_all add: bindE_def)

lemma bindE_Inr [simp]: "bindE (Inr x) f = f x"
  by (simp add: bindE_def)

lemma bindE_Inl [simp]: "bindE (Inl e) f = Inl e"
  by (simp add: bindE_def)


lemma mapT_mapT: "mapT f (mapT g t) = mapT (\<lambda>x. f (g x)) t"
  by (cases t) simp_all

lemma binOp_Scalar_right: "binOp f t (Scalar c) = Inr (mapT (\<lambda>x. f x c) t)"
  by (cases t) simp_all

lemma clampedColorTensor_eq:
  "clampedColorTensor t = Inr (mapT (\<lambda>x. max (min x 1) 0) t)"
  by (simp add: clampedColorTensor_def tminimum_def tmaximum_def binOp_Scalar_right mapT_mapT)



section \<open>Properties of the training step\<close>

lemma layersOutput_Nil: "layersOutput st [] = Inl TypeError"
  by (simp add: layersOutput_def)

lemma train1Batch_empty:
  assumes "input batch = []"
  shows "train1Batch upd st batch f = Inl TypeError"
  by (simp add: train1Batch_def minimize_def batchLoss_def predict_def layersOutput_def assms)

lemma train1Batch_Inr:
  assumes "train1Batch upd st batch f = Inr (st', c)"
  shows "\<exists>ws bs. st' = st\<lparr>weights := ws, biases := bs\<rparr>"
  using assms
  by (auto simp: train1Batch_def minimize_def bindE_Inr_iff split: prod.splits)

lemma train1Batch_keeps:
  assumes "train1Batch upd st batch f = Inr (st', c)"
  shows "batchSize st' = batchSize st" and "optimizerRate st' = optimizerRate st"
    and "learningRate st' = learningRate st" and "data st' = data st"
    and "sampleSize st' = sampleSize st"
  using train1Batch_Inr[OF assms] by auto


lemma loop_step_false:
  "\<not> int i \<le> lastBatchIndex \<Longrightarrow>
     train1StepLoop upd f inp tgt lastBatchIndex i st cost = Some (Inr (st, cost))"
  by (subst train1StepLoop.simps) simp

lemma loop_step_true:
  "int i \<le> lastBatchIndex \<Longrightarrow>
     train1StepLoop upd f inp tgt lastBatchIndex i st cost =
       (case train1Batch upd st (batchAt inp tgt (batchSize st) i) f of
           Inl e \<Rightarrow> Some (Inl e)
         | Inr (st', batchCost) \<Rightarrow>
             if f then
               (case batchCost of
                  None \<Rightarrow> Some (Inl TypeError)
                | Some c \<Rightarrow>
                    (case tadd cost c of
                       Inl e \<Rightarrow> Some (Inl e)
                     | Inr cost' \<Rightarrow>
                         train1StepLoop upd f inp tgt lastBatchIndex
                           (i + batchSize st') st' cost'))
             else train1StepLoop upd f inp tgt lastBatchIndex
                    (i + batchSize st') st' cost)"
  by (subst train1StepLoop.simps) (simp only: if_True batchAt_def)

lemma batch_count_zero:
  "0 < (bs::nat) \<Longrightarrow> (len - i) div bs = 0 \<Longrightarrow> \<not> int i \<le> int len - int bs"
proof -
  assume b: "0 < bs" and z: "(len - i) div bs = 0"
  then have "len - i < bs" by (simp add: div_eq_0_iff)
  with b show ?thesis by arith
qed

lemma batch_count_Suc:
  assumes b: "0 < (bs::nat)" and s: "Suc n = (len - i) div bs"
  shows "int i \<le> int len - int bs" and "n = (len - (i + bs)) div bs"
proof -
  have ge: "bs \<le> len - i"
  proof (rule ccontr)
    assume "\<not> bs \<le> len - i"
    then have "(len - i) div bs = 0" by simp
    with s show False by simp
  qed
  with b show "int i \<le> int len - int bs" by arith
  have "len - i = (len - (i + bs)) + bs" using ge by simp
  then have "(len - i) div bs = ((len - (i + bs)) + bs) div bs" by (rule arg_cong)
  also have "\<dots> = (len - (i + bs)) div bs + 1" using b by (intro div_add_self2) simp
  finally show "n = (len - (i + bs)) div bs" using s by simp
qed

lemma train1StepLoop_runBatches:
  assumes "0 < bs"
  shows "batchSize st = bs \<Longrightarrow>
     train1StepLoop upd f inp tgt (int (length inp) - int bs) i st cost =
       Some (runBatches upd f
         (map (\<lambda>k. batchAt inp tgt bs (i + k * bs)) [0..<(length inp - i) div bs]) st cost)"
proof (induction n \<equiv> "(length inp - i) div bs" arbitrary: i st cost)
  case 0
  from 0(1) have z: "(length inp - i) div bs = 0" by simp
  from loop_step_false[OF batch_count_zero[OF assms z]] show ?case unfolding z by simp
next
  case (Suc n)
  note cond = batch_count_Suc(1)[OF assms Suc(2)]
  note n = batch_count_Suc(2)[OF assms Suc(2)]
  have batches: "map (\<lambda>k. batchAt inp tgt bs (i + k * bs)) [0..<Suc n] =
      batchAt inp tgt bs i # map (\<lambda>k. batchAt inp tgt bs (i + bs + k * bs)) [0..<n]"
  proof -
    have u: "[0..<Suc n] = 0 # [Suc 0..<Suc n]" by (rule upt_conv_Cons) simp
    have v: "[Suc 0..<Suc n] = map Suc [0..<n]" by (rule map_Suc_upt[symmetric])
    show ?thesis unfolding u v by (simp add: add.assoc)
  qed
  have IH: "train1StepLoop upd f inp tgt (int (length inp) - int bs) (i + bs) st' cost' =
       Some (runBatches upd f
         (map (\<lambda>k. batchAt inp tgt bs (i + bs + k * bs)) [0..<n]) st' cost')"
    if "batchSize st' = bs" for st' cost'
    using Suc(1)[OF n that] unfolding n[symmetric] .
  let ?b = "batchAt inp tgt bs i"
  let ?rest = "map (\<lambda>k. batchAt inp tgt bs (i + bs + k * bs)) [0..<n]"
  note step = loop_step_true[OF cond, of upd f inp tgt st cost, unfolded Suc.prems]
  have goal: "train1StepLoop upd f inp tgt (int (length inp) - int bs) i st cost =
      Some (runBatches upd f (?b # ?rest) st cost)"
  proof (cases "train1Batch upd st ?b f")
    case (Inl e)
    then show ?thesis unfolding step by simp
  next
    case (Inr r)
    obtain st' bc where r: "r = (st', bc)" by (cases r)
    have tb: "train1Batch upd st ?b f = Inr (st', bc)" using Inr r by simp
    have k: "batchSize st' = bs" using train1Batch_keeps(1)[OF tb] Suc.prems by simp
    show ?thesis
    proof (cases f)
      case False
      then show ?thesis unfolding step using tb k IH[OF k] by simp
    next
      case True
      show ?thesis
      proof (cases bc)
        case None
        then show ?thesis unfolding step using tb True by simp
      next
        case (Some c)
        show ?thesis
        proof (cases "tadd cost c")
          case (Inl e)
          then show ?thesis unfolding step using tb True Some by simp
        next
          case (Inr cost')
          then show ?thesis unfolding step using tb True Some k IH[OF k] by simp
        qed
      qed
    qed
  qed
  show ?case unfolding Suc(2)[symmetric] batches by (rule goal)
qed

lemma floor_step: "\<lfloor>real_of_int step / 42\<rfloor> = step div 42"
  using floor_divide_of_int_eq[of step 42, where ?'a = real] by simp

lemma specBatches_as_map:
  "specBatches d bs = map (\<lambda>k. batchAt (input d) (target d) bs (0 + k * bs))
       [0..<(length (input d) - 0) div bs]"
  by (simp add: specBatches_def specBatchStarts_def comp_def)

lemma train1Step_eq:
  assumes "0 < batchSize st" and "data st = Some d"
  shows "train1Step upd st step f =
     Some (bindE (runBatches upd f (specBatches d (batchSize st))
                    (st\<lparr>optimizerRate := learningRate st * (85 / 100) powi (step div 42)\<rparr>) (Scalar 0))
             (\<lambda>r. case r of (st2, cost) \<Rightarrow>
                if f then bindE (tdiv cost (Scalar (real (batchSize st2))))
                            (\<lambda>q. Inr (st2, dataSync0 q))
                else Inr (st2, None)))"
proof -
  let ?st1 = "st\<lparr>optimizerRate := learningRate st * (85 / 100) powi (step div 42)\<rparr>"
  have bs: "batchSize ?st1 = batchSize st" by simp
  have loop: "train1StepLoop upd f (input d) (target d)
        (int (length (input d)) - int (batchSize st)) 0 ?st1 (Scalar 0) =
      Some (runBatches upd f (specBatches d (batchSize st)) ?st1 (Scalar 0))"
    unfolding specBatches_as_map by (rule train1StepLoop_runBatches[OF assms(1) bs])
  show ?thesis
    unfolding train1Step_def Let_def floor_step
    using assms(2) loop
    by (simp add: bindE_def split: sum.splits prod.splits)
qed

lemma train1Step_zero_batch:
  assumes "batchSize st = 0" and "data st = Some d"
  shows "train1Step upd st step f = Some (Inl TypeError)"
proof -
  let ?st1 = "st\<lparr>optimizerRate := learningRate st * (85 / 100) powi (step div 42)\<rparr>"
  have c: "int 0 \<le> int (length (input d)) - int (batchSize ?st1)" using assms(1) by simp
  have e: "input (batchAt (input d) (target d) (batchSize ?st1) 0) = []"
    using assms(1) by (simp add: batchAt_def slice_def)
  have "train1StepLoop upd f (input d) (target d)
        (int (length (input d)) - int (batchSize ?st1)) 0 ?st1 (Scalar 0) = Some (Inl TypeError)"
    unfolding loop_step_true[OF c] train1Batch_empty[OF e] by simp
  then show ?thesis
    unfolding train1Step_def Let_def floor_step using assms(2) by simp
qed

lemma train1Step_no_data:
  assumes "data st = None"
  shows "train1Step upd st step f = Some (Inl TypeError)"
  unfolding train1Step_def Let_def using assms by simp

lemma train1Step_total: "train1Step upd st step f \<noteq> None"
proof (cases "data st")
  case None
  then show ?thesis by (simp add: train1Step_no_data)
next
  case (Some d)
  show ?thesis
  proof (cases "batchSize st = 0")
    case True
    then show ?thesis using Some by (simp add: train1Step_zero_batch)
  next
    case False
    then have "0 < batchSize st" by simp
    from train1Step_eq[OF this Some] show ?thesis by simp
  qed
qed

lemma runBatches_keeps:
  assumes "runBatches upd f batches st cost = Inr (st', cost')"
  shows "batchSize st' = batchSize st \<and> optimizerRate st' = optimizerRate st
         \<and> learningRate st' = learningRate st \<and> data st' = data st"
  using assms
proof (induction batches arbitrary: st cost)
  case Nil
  then show ?case by simp
next
  case (Cons b batches)
  from Cons.prems obtain st1 bc where tb: "train1Batch upd st b f = Inr (st1, bc)"
    by (auto split: sum.splits)
  from Cons.prems tb obtain cost1 where "runBatches upd f batches st1 cost1 = Inr (st', cost')"
    by (auto split: if_splits option.splits sum.splits)
  from Cons.IH[OF this] train1Batch_keeps[OF tb] show ?case by simp
qed


lemma concat_slices:
  "concat (map (\<lambda>k. slice xs (k * bs) (k * bs + bs)) [0..<n]) = take (n * bs) xs"
proof (induction n)
  case 0
  then show ?case by simp
next
  case (Suc n)
  have "take (n * bs) xs @ take bs (drop (n * bs) xs) = take (n * bs + bs) xs"
    by (simp add: take_add)
  with Suc show ?case by (simp add: slice_def add.commute)
qed

lemma length_specBatches: "length (specBatches d bs) = length (input d) div bs"
  by (simp add: specBatches_def specBatchStarts_def)

lemma concat_specBatches_input:
  "concat (map input (specBatches d bs)) = take (length (input d) div bs * bs) (input d)"
  using concat_slices[of "input d" bs "length (input d) div bs"]
  by (simp add: specBatches_def specBatchStarts_def batchAt_def comp_def)

lemma concat_specBatches_target:
  "concat (map target (specBatches d bs)) = take (length (input d) div bs * bs) (target d)"
  using concat_slices[of "target d" bs "length (input d) div bs"]
  by (simp add: specBatches_def specBatchStarts_def batchAt_def comp_def)

lemma specBatches_full:
  assumes "b \<in> set (specBatches d bs)"
  shows "length (input b) = bs"
proof -
  from assms obtain k where k: "k < length (input d) div bs"
    and b: "b = batchAt (input d) (target d) bs (k * bs)"
    by (auto simp: specBatches_def specBatchStarts_def)
  have "Suc k * bs \<le> (length (input d) div bs) * bs"
    using k by (intro mult_le_mono1) simp
  also have "\<dots> \<le> length (input d)" by simp
  finally have "k * bs + bs \<le> length (input d)" by (simp add: add.commute)
  then show ?thesis by (simp add: b batchAt_def slice_def)
qed

lemma specBatches_120_50:
  assumes "length (input d) = 120"
  shows "specBatches d 50 = [batchAt (input d) (target d) 50 0, batchAt (input d) (target d) 50 50]"
  by (simp add: specBatches_def specBatchStarts_def assms upt_rec)

text \<open>
  C3. With a positive batch size, one training step trains on exactly the batches the
  specification describes, in their order: the loop that runs while
  \<open>i \<le> length - batchSize\<close> equals the run over \<open>specBatches\<close>. These are
  \<open>length div batchSize\<close> batches of exactly \<open>batchSize\<close> samples; joined, they are
  the first \<open>length div batchSize * batchSize\<close> samples of the dataset, so a trailing
  partial batch is dropped. With 120 samples and batches of 50 they are the two batches
  that start at 0 and at 50, which cover the first 100 samples.
\<close>

theorem train1Step_batches:
  assumes "0 < batchSize st" and "data st = Some d"
  shows "train1Step upd st step f =
           Some (bindE (runBatches upd f (specBatches d (batchSize st))
                          (st\<lparr>optimizerRate := learningRate st * (85 / 100) powi (step div 42)\<rparr>)
                          (Scalar 0))
                   (\<lambda>r. case r of (st2, cost) \<Rightarrow>
                      if f then bindE (tdiv cost (Scalar (real (batchSize st2))))
                                  (\<lambda>q. Inr (st2, dataSync0 q))
                      else Inr (st2, None)))
         \<and> length (specBatches d (batchSize st)) = length (input d) div batchSize st
         \<and> (\<forall>b \<in> set (specBatches d (batchSize st)). length (input b) = batchSize st)
         \<and> concat (map input (specBatches d (batchSize st))) =
             take (length (input d) div batchSize st * batchSize st) (input d)
         \<and> concat (map target (specBatches d (batchSize st))) =
             take (length (input d) div batchSize st * batchSize st) (target d)
         \<and> (length (input d) = 120 \<and> batchSize st = 50 \<longrightarrow>
              specBatches d (batchSize st) =
                [batchAt (input d) (target d) 50 0, batchAt (input d) (target d) 50 50]
              \<and> concat (map input (specBatches d (batchSize st))) = take 100 (input d))"
proof -
  have "concat (map input (specBatches d 50)) = take 100 (input d)" if "length (input d) = 120"
    using concat_specBatches_input[of d 50] that by simp
  then show ?thesis
    using train1Step_eq[OF assms] length_specBatches specBatches_full
      concat_specBatches_input concat_specBatches_target specBatches_120_50
    by auto
qed

lemma tiny_data:
  "data (tinySession\<lparr>optimizerRate := r\<rparr>) = Some \<lparr>
       input = [[1 / 5, 2 / 5, 1 / 5], [0, 0, 0], [1, 1, 1], [0, 1, 0],
                [1 / 5, 2 / 5, 1 / 5], [0, 0, 0], [1, 0, 0]],
       target = [[1, 0, 0], [0, 0, 0], [1, 1, 1], [0, 1, 0],
                 [0, 0, 0], [1, 1, 1], [0, 1, 1]]\<rparr>"
  by (simp add: tinySession_def)

lemma tiny_batches:
  "specBatches \<lparr>
       input = [[1 / 5, 2 / 5, 1 / 5], [0, 0, 0], [1, 1, 1], [0, 1, 0],
                [1 / 5, 2 / 5, 1 / 5], [0, 0, 0], [1, 0, 0]],
       target = [[1, 0, 0], [0, 0, 0], [1, 1, 1], [0, 1, 0],
                 [0, 0, 0], [1, 1, 1], [0, 1, 1]]\<rparr> 2 =
   [\<lparr>input = [[1 / 5, 2 / 5, 1 / 5], [0, 0, 0]], target = [[1, 0, 0], [0, 0, 0]]\<rparr>,
    \<lparr>input = [[1, 1, 1], [0, 1, 0]], target = [[1, 1, 1], [0, 1, 0]]\<rparr>,
    \<lparr>input = [[1 / 5, 2 / 5, 1 / 5], [0, 0, 0]], target = [[0, 0, 0], [1, 1, 1]]\<rparr>]"
  by (simp add: specBatches_def specBatchStarts_def batchAt_def slice_def upt_rec)

lemmas tiny_eval = train1Batch_def minimize_def batchLoss_def predict_def clampedColorTensor_eq
  layersOutput_def tinySession_def tinyModel_def newModel_def tensor2d_def
  connectFullyConnectedLayer_def arrayGet_def tadd_def tsub_def loss_def tmean_def tsquare_def
  relu_def frozenStep_def upt_rec

lemma tiny_batch1:
  "train1Batch frozenStep (tinySession\<lparr>optimizerRate := r\<rparr>)
     \<lparr>input = [[1 / 5, 2 / 5, 1 / 5], [0, 0, 0]], target = [[1, 0, 0], [0, 0, 0]]\<rparr> f =
   Inr (tinySession\<lparr>optimizerRate := r\<rparr>, if f then Some (Scalar (3 / 800)) else None)"
  by (simp add: tiny_eval)

lemma tiny_batch2:
  "train1Batch frozenStep (tinySession\<lparr>optimizerRate := r\<rparr>)
     \<lparr>input = [[1, 1, 1], [0, 1, 0]], target = [[1, 1, 1], [0, 1, 0]]\<rparr> f =
   Inr (tinySession\<lparr>optimizerRate := r\<rparr>, if f then Some (Scalar (15 / 32)) else None)"
  by (simp add: tiny_eval)

lemma tiny_batch3:
  "train1Batch frozenStep (tinySession\<lparr>optimizerRate := r\<rparr>)
     \<lparr>input = [[1 / 5, 2 / 5, 1 / 5], [0, 0, 0]], target = [[0, 0, 0], [1, 1, 1]]\<rparr> f =
   Inr (tinySession\<lparr>optimizerRate := r\<rparr>, if f then Some (Scalar (1609 / 2400)) else None)"
  by (simp add: tiny_eval)

lemma tiny_run:
  "runBatches frozenStep f
     [\<lparr>input = [[1 / 5, 2 / 5, 1 / 5], [0, 0, 0]], target = [[1, 0, 0], [0, 0, 0]]\<rparr>,
      \<lparr>input = [[1, 1, 1], [0, 1, 0]], target = [[1, 1, 1], [0, 1, 0]]\<rparr>,
      \<lparr>input = [[1 / 5, 2 / 5, 1 / 5], [0, 0, 0]], target = [[0, 0, 0], [1, 1, 1]]\<rparr>]
     (tinySession\<lparr>optimizerRate := r\<rparr>) (Scalar 0) =
   Inr (tinySession\<lparr>optimizerRate := r\<rparr>, Scalar (if f then 2743 / 2400 else 0))"
  by (simp add: tiny_batch1 tiny_batch2 tiny_batch3 tadd_def)


theorem train1Step_batches_witness:
  "0 < batchSize tinySession
   \<and> train1Step frozenStep tinySession 5 False =
       Some (Inr (tinySession\<lparr>optimizerRate := 1 / 10\<rparr>, None))
   \<and> length (specBatches (the (data tinySession)) 2) = 3
   \<and> concat (map input (specBatches (the (data tinySession)) 2)) =
       [[1 / 5, 2 / 5, 1 / 5], [0, 0, 0], [1, 1, 1], [0, 1, 0], [1 / 5, 2 / 5, 1 / 5], [0, 0, 0]]
   \<and> specBatches \<lparr>input = replicate 120 [0, 0, 0], target = replicate 120 [1, 1, 1]\<rparr> 50 =
       [batchAt (replicate 120 [0, 0, 0]) (replicate 120 [1, 1, 1]) 50 0,
        batchAt (replicate 120 [0, 0, 0]) (replicate 120 [1, 1, 1]) 50 50]"
proof -
  have h1: "0 < batchSize tinySession" by (simp add: tinySession_def)
  have h2: "data tinySession = Some \<lparr>
       input = [[1 / 5, 2 / 5, 1 / 5], [0, 0, 0], [1, 1, 1], [0, 1, 0],
                [1 / 5, 2 / 5, 1 / 5], [0, 0, 0], [1, 0, 0]],
       target = [[1, 0, 0], [0, 0, 0], [1, 1, 1], [0, 1, 0],
                 [0, 0, 0], [1, 1, 1], [0, 1, 1]]\<rparr>"
    by (simp add: tinySession_def)
  have bs: "batchSize tinySession = 2" "learningRate tinySession = 1 / 10"
    by (simp_all add: tinySession_def tinyModel_def newModel_def)
  let ?s = "newModel\<lparr>data := Some \<lparr>input = replicate 120 [0, 0, 0],
                                      target = replicate 120 [1, 1, 1]\<rparr>\<rparr>"
  have g1: "0 < batchSize ?s" by (simp add: newModel_def)
  have g2: "data ?s = Some \<lparr>input = replicate 120 [0, 0, 0], target = replicate 120 [1, 1, 1]\<rparr>"
    by simp
  have g3: "batchSize ?s = 50" by (simp add: newModel_def)
  from train1Step_batches [OF h1 h2, of frozenStep 5 False]
    train1Step_batches [OF g1 g2, of frozenStep 5 False]
  show ?thesis
    unfolding bs g3 by (simp add: h2 tiny_batches tiny_run h1 del: runBatches.simps)
qed

lemma train1Batch_rate:
  "optimizerRate st = R \<Longrightarrow> train1Batch (\<lambda>r. upd R) st b f = train1Batch upd st b f"
  by (simp add: train1Batch_def minimize_def)

lemma runBatches_rate:
  "optimizerRate st = R \<Longrightarrow>
     runBatches (\<lambda>r. upd R) f batches st cost = runBatches upd f batches st cost"
proof (induction batches arbitrary: st cost)
  case Nil
  then show ?case by simp
next
  case (Cons b batches)
  have tb: "train1Batch (\<lambda>r. upd R) st b f = train1Batch upd st b f"
    using Cons.prems by (rule train1Batch_rate)
  show ?case
  proof (cases "train1Batch upd st b f")
    case (Inl e)
    then show ?thesis using tb by simp
  next
    case (Inr r)
    obtain st' bc where r: "r = (st', bc)" by (cases r)
    have "optimizerRate st' = R" using train1Batch_keeps(2)[of upd st b f st' bc] Inr r Cons.prems
      by simp
    then have IH: "runBatches (\<lambda>r. upd R) f batches st' cost' =
        runBatches upd f batches st' cost'" for cost'
      by (rule Cons.IH)
    show ?thesis using tb Inr r IH
      by (cases f) (simp_all split: option.splits sum.splits)
  qed
qed

lemma train1Step_rate_only:
  "train1Step (\<lambda>r. upd (learningRate st * (85 / 100) powi (step div 42))) st step f =
   train1Step upd st step f"
proof (cases "data st")
  case None
  then show ?thesis by (simp add: train1Step_no_data)
next
  case (Some d)
  show ?thesis
  proof (cases "batchSize st = 0")
    case True
    then show ?thesis using Some by (simp add: train1Step_zero_batch)
  next
    case False
    then have p: "0 < batchSize st" by simp
    show ?thesis unfolding train1Step_eq[OF p Some]
      by (simp add: runBatches_rate)
  qed
qed

lemma train1Step_final_rate:
  assumes "train1Step upd st step f = Some (Inr (st', c))"
  shows "optimizerRate st' = learningRate st * (85 / 100) powi (step div 42)
         \<and> learningRate st' = learningRate st"
proof (cases "data st")
  case None
  then show ?thesis using assms by (simp add: train1Step_no_data)
next
  case (Some d)
  show ?thesis
  proof (cases "batchSize st = 0")
    case True
    then show ?thesis using Some assms by (simp add: train1Step_zero_batch)
  next
    case False
    then have p: "0 < batchSize st" by simp
    let ?st1 = "st\<lparr>optimizerRate := learningRate st * (85 / 100) powi (step div 42)\<rparr>"
    from assms obtain cost where
      "runBatches upd f (specBatches d (batchSize st)) ?st1 (Scalar 0) = Inr (st', cost)"
      unfolding train1Step_eq[OF p Some]
      by (auto simp: bindE_Inr_iff split: if_splits)
    from runBatches_keeps[OF this] show ?thesis by simp
  qed
qed

lemma train1BatchLoop_eager_keeps:
  assumes "train1BatchLoop_eager upd f idxs st cost = Inr (st', cost')"
  shows "optimizerRate st' = optimizerRate st \<and> learningRate st' = learningRate st"
  using assms
proof (induction idxs arbitrary: st cost)
  case Nil
  then show ?case by simp
next
  case (Cons i idxs)
  from Cons.prems obtain ws bs c where
    "train1BatchLoop_eager upd f idxs (st\<lparr>weights := ws, biases := bs\<rparr>) c = Inr (st', cost')"
    by (auto simp: bindE_Inr_iff split: option.splits prod.splits)
  from Cons.IH[OF this] show ?case by simp
qed

lemma train1Batch_eager_final_rate:
  assumes "train1Batch_eager upd st step f = Inr (st', c)"
  shows "optimizerRate st' = learningRate st * (85 / 100) powi (step div 42)
         \<and> learningRate st' = learningRate st"
proof -
  let ?st1 = "st\<lparr>optimizerRate := learningRate st * (85 / 100) powi (step div 42)\<rparr>"
  show ?thesis
  proof (cases "data st")
    case None
    then show ?thesis using assms by (simp add: train1Batch_eager_def)
  next
    case (Some d)
    then have "train1BatchLoop_eager upd f [0..<length (input d)] ?st1 None = Inr (st', c)"
      using assms unfolding train1Batch_eager_def Let_def floor_step by simp
    from train1BatchLoop_eager_keeps[OF this] show ?thesis by simp
  qed
qed

text \<open>
  C4. The learning rate of step \<open>s\<close> is \<open>learningRate * 0.85 ^ floor (s / 42)\<close>: it is
  the rate the optimizer holds after the step, it is the only rate the gradient step is
  ever given during the step, and the rate the optimizer held before the step plays no
  part. It is the base rate at step 0, \<open>0.85\<close> times it at step 42 and \<open>0.85\<^sup>2\<close>
  times it at step 84. The eager \<open>train1Batch\<close> sets the same rate.
\<close>

theorem learning_rate_schedule:
  "(train1Step upd st step f = Some (Inr (st', c)) \<longrightarrow>
      optimizerRate st' = learningRate st * (85 / 100) powi (step div 42)
      \<and> learningRate st' = learningRate st
      \<and> (step = 0 \<longrightarrow> optimizerRate st' = learningRate st)
      \<and> (step = 42 \<longrightarrow> optimizerRate st' = learningRate st * (85 / 100))
      \<and> (step = 84 \<longrightarrow> optimizerRate st' = learningRate st * (85 / 100)\<^sup>2))
   \<and> train1Step (\<lambda>r. upd (learningRate st * (85 / 100) powi (step div 42))) st step f =
       train1Step upd st step f
   \<and> train1Step upd (st\<lparr>optimizerRate := r0\<rparr>) step f = train1Step upd st step f
   \<and> (train1Batch_eager upd st step f = Inr (st'', c') \<longrightarrow>
        optimizerRate st'' = learningRate st * (85 / 100) powi (step div 42)
        \<and> learningRate st'' = learningRate st)"
proof -
  have a: "optimizerRate st' = learningRate st * (85 / 100) powi (step div 42)
      \<and> learningRate st' = learningRate st
      \<and> (step = 0 \<longrightarrow> optimizerRate st' = learningRate st)
      \<and> (step = 42 \<longrightarrow> optimizerRate st' = learningRate st * (85 / 100))
      \<and> (step = 84 \<longrightarrow> optimizerRate st' = learningRate st * (85 / 100)\<^sup>2)"
    if "train1Step upd st step f = Some (Inr (st', c))"
    using train1Step_final_rate[OF that] by auto
  have b: "train1Step upd (st\<lparr>optimizerRate := r0\<rparr>) step f = train1Step upd st step f"
    by (simp add: train1Step_def)
  show ?thesis
    using a b train1Step_rate_only train1Batch_eager_final_rate by blast
qed

lemma tiny_step:
  "train1Step frozenStep tinySession step f =
     Some (Inr (tinySession\<lparr>optimizerRate := 1 / 10 * (85 / 100) powi (step div 42)\<rparr>,
                if f then Some (2743 / 4800) else None))"
proof -
  have h1: "0 < batchSize tinySession" by (simp add: tinySession_def)
  have bs: "batchSize tinySession = 2" "learningRate tinySession = 1 / 10"
    by (simp_all add: tinySession_def tinyModel_def newModel_def)
  have bs': "batchSize (tinySession\<lparr>optimizerRate := r\<rparr>) = 2" for r
    by (simp add: bs)
  show ?thesis
    unfolding train1Step_eq[OF h1 tiny_data[of "optimizerRate tinySession", simplified]] bs
      tiny_batches tiny_run
    by (simp add: tdiv_def dataSync0_def bs')
qed

lemmas tiny_eval_eager = predict_eager_def predictRaw_eager_def denormalizeColorTensor_eager_def
  normalizeColor_def tensor2dFlat_def tmul_def tceil_def clipByValue_def

lemma tiny_eager_step:
  "train1Batch_eager frozenStep tinySession 42 False
     = Inr (tinySession\<lparr>optimizerRate := 17 / 200\<rparr>, None)"
  unfolding train1Batch_eager_def Let_def floor_step
  by (simp add: tiny_eval tiny_eval_eager)

theorem learning_rate_schedule_witness:
  "train1Step frozenStep tinySession 42 False =
     Some (Inr (tinySession\<lparr>optimizerRate := 17 / 200\<rparr>, None))
   \<and> optimizerRate (tinySession\<lparr>optimizerRate := 17 / 200\<rparr>) = learningRate tinySession * (85 / 100)
   \<and> train1Step frozenStep tinySession 0 False =
     Some (Inr (tinySession\<lparr>optimizerRate := 1 / 10\<rparr>, None))
   \<and> optimizerRate (tinySession\<lparr>optimizerRate := 1 / 10\<rparr>) = learningRate tinySession
   \<and> train1Step frozenStep tinySession 84 False =
     Some (Inr (tinySession\<lparr>optimizerRate := 289 / 4000\<rparr>, None))
   \<and> optimizerRate (tinySession\<lparr>optimizerRate := 289 / 4000\<rparr>) =
       learningRate tinySession * (85 / 100)\<^sup>2
   \<and> train1Batch_eager frozenStep tinySession 42 False
     = Inr (tinySession\<lparr>optimizerRate := 17 / 200\<rparr>, None)"
proof -
  have e0: "train1Step frozenStep tinySession 0 False =
     Some (Inr (tinySession\<lparr>optimizerRate := 1 / 10\<rparr>, None))"
    by (simp add: tiny_step)
  have e42: "train1Step frozenStep tinySession 42 False =
     Some (Inr (tinySession\<lparr>optimizerRate := 17 / 200\<rparr>, None))"
    by (simp add: tiny_step)
  have e84: "train1Step frozenStep tinySession 84 False =
     Some (Inr (tinySession\<lparr>optimizerRate := 289 / 4000\<rparr>, None))"
    by (simp add: tiny_step power2_eq_square)
  from learning_rate_schedule [of frozenStep tinySession 0 False
      "tinySession\<lparr>optimizerRate := 1 / 10\<rparr>" None]
    learning_rate_schedule [of frozenStep tinySession 42 False
      "tinySession\<lparr>optimizerRate := 17 / 200\<rparr>" None _
      "tinySession\<lparr>optimizerRate := 17 / 200\<rparr>" None]
    learning_rate_schedule [of frozenStep tinySession 84 False
      "tinySession\<lparr>optimizerRate := 289 / 4000\<rparr>" None]
    e0 e42 e84 tiny_eager_step
  show ?thesis by simp
qed

lemma tmean_Scalar: "tmean t = Inr r \<Longrightarrow> \<exists>c. r = Scalar c"
  by (auto simp: tmean_def split: if_splits)

lemma loss_Scalar: "loss p a = Inr r \<Longrightarrow> \<exists>c. r = Scalar c"
  by (auto simp: loss_def bindE_Inr_iff dest: tmean_Scalar)

lemma batchLoss_Scalar:
  assumes "batchLoss st b vars = Inr r"
  shows "\<exists>c. r = Scalar c"
proof (cases "target b")
  case Nil
  then show ?thesis using assms
    by (auto simp: batchLoss_def bindE_Inr_iff split: prod.splits)
next
  case (Cons row rows)
  then obtain p a where "loss p a = Inr r" using assms
    by (auto simp: batchLoss_def bindE_Inr_iff split: prod.splits)
  then show ?thesis by (rule loss_Scalar)
qed

lemma train1Batch_cost:
  assumes "train1Batch upd st b True = Inr (st', bc)"
  shows "\<exists>c. bc = Some (Scalar c)"
  using assms
  by (auto simp: train1Batch_def minimize_def bindE_Inr_iff split: prod.splits
      dest: batchLoss_Scalar)

lemma runBatches_costs:
  assumes "runBatches upd True batches st (Scalar c0) = Inr (st', cost)"
  shows "cost = Scalar (c0 + sum_list (batchCosts upd batches st))
         \<and> length (batchCosts upd batches st) = length batches"
  using assms
proof (induction batches arbitrary: st c0)
  case Nil
  then show ?case by simp
next
  case (Cons b batches)
  from Cons.prems obtain st1 bc where tb: "train1Batch upd st b True = Inr (st1, bc)"
    by (auto split: sum.splits)
  from train1Batch_cost[OF tb] obtain c where bc: "bc = Some (Scalar c)" by blast
  from Cons.prems tb bc have "runBatches upd True batches st1 (Scalar (c0 + c)) = Inr (st', cost)"
    by (simp add: tadd_def)
  from Cons.IH[OF this] show ?case using tb bc by (simp add: add.assoc)
qed

text \<open>
  C6. On a step that fetches the cost, the value \<open>train1Step\<close> returns is the sum of the
  costs of the batches of the step divided by the batch size, where there is one cost
  per batch, \<open>length div batchSize\<close> of them. The mean cost of the step is that sum
  divided by the number of batches, so the returned value is the mean only when the
  number of batches equals the batch size.
\<close>

theorem reported_cost_formula:
  assumes "0 < batchSize st" and "data st = Some d"
    and "train1Step upd st step True = Some (Inr (st', c))"
  shows "c = Some (sum_list (batchCosts upd (specBatches d (batchSize st))
                     (st\<lparr>optimizerRate := learningRate st * (85 / 100) powi (step div 42)\<rparr>))
                   / real (batchSize st))
         \<and> length (batchCosts upd (specBatches d (batchSize st))
                     (st\<lparr>optimizerRate := learningRate st * (85 / 100) powi (step div 42)\<rparr>))
             = length (input d) div batchSize st"
proof -
  let ?st1 = "st\<lparr>optimizerRate := learningRate st * (85 / 100) powi (step div 42)\<rparr>"
  let ?bs = "specBatches d (batchSize st)"
  from assms(3) obtain cost q where run: "runBatches upd True ?bs ?st1 (Scalar 0) = Inr (st', cost)"
    and q: "tdiv cost (Scalar (real (batchSize st'))) = Inr q" and c: "c = dataSync0 q"
    unfolding train1Step_eq[OF assms(1,2)]
    by (auto simp: bindE_Inr_iff)
  from runBatches_costs[OF run] have cost: "cost = Scalar (sum_list (batchCosts upd ?bs ?st1))"
    and len: "length (batchCosts upd ?bs ?st1) = length ?bs" by simp_all
  have "batchSize st' = batchSize st" using runBatches_keeps[OF run] by simp
  with q cost c have "c = Some (sum_list (batchCosts upd ?bs ?st1) / real (batchSize st))"
    by (auto simp: tdiv_def dataSync0_def)
  with len show ?thesis by (simp add: length_specBatches)
qed

lemma tiny_costs:
  "batchCosts frozenStep
     [\<lparr>input = [[1 / 5, 2 / 5, 1 / 5], [0, 0, 0]], target = [[1, 0, 0], [0, 0, 0]]\<rparr>,
      \<lparr>input = [[1, 1, 1], [0, 1, 0]], target = [[1, 1, 1], [0, 1, 0]]\<rparr>,
      \<lparr>input = [[1 / 5, 2 / 5, 1 / 5], [0, 0, 0]], target = [[0, 0, 0], [1, 1, 1]]\<rparr>]
     (tinySession\<lparr>optimizerRate := r\<rparr>) = [3 / 800, 15 / 32, 1609 / 2400]"
  by (simp add: tiny_batch1 tiny_batch2 tiny_batch3)

theorem reported_cost_formula_witness:
  "train1Step frozenStep tinySession 5 True =
     Some (Inr (tinySession\<lparr>optimizerRate := 1 / 10\<rparr>, Some (2743 / 4800)))
   \<and> batchCosts frozenStep (specBatches (the (data tinySession)) (batchSize tinySession))
        (tinySession\<lparr>optimizerRate := 1 / 10\<rparr>) = [3 / 800, 15 / 32, 1609 / 2400]
   \<and> (2743 / 4800 :: real) = sum_list [3 / 800, 15 / 32, 1609 / 2400] / 2
   \<and> sum_list [3 / 800, 15 / 32, 1609 / 2400] / real (length [3 / 800, 15 / 32, 1609 / 2400 :: real])
        = (2743 / 7200 :: real)"
proof -
  have h1: "0 < batchSize tinySession" by (simp add: tinySession_def)
  have bs: "batchSize tinySession = 2" "learningRate tinySession = 1 / 10"
    by (simp_all add: tinySession_def tinyModel_def newModel_def)
  note h2 = tiny_data[of "optimizerRate tinySession", simplified]
  have e: "train1Step frozenStep tinySession 5 True =
     Some (Inr (tinySession\<lparr>optimizerRate := 1 / 10\<rparr>, Some (2743 / 4800)))"
    by (simp add: tiny_step)
  from reported_cost_formula [OF h1 h2 e] e show ?thesis
    by (simp add: bs h2 tiny_batches tiny_costs del: batchCosts.simps)
qed

lemma train1Step_no_fetch:
  assumes "train1Step upd st step False = Some (Inr (st', c))"
  shows "c = None"
proof (cases "data st")
  case None
  then show ?thesis using assms by (simp add: train1Step_no_data)
next
  case (Some d)
  show ?thesis
  proof (cases "batchSize st = 0")
    case True
    then show ?thesis using Some assms by (simp add: train1Step_zero_batch)
  next
    case False
    then have p: "0 < batchSize st" by simp
    from assms show ?thesis unfolding train1Step_eq[OF p Some]
      by (auto simp: bindE_Inr_iff)
  qed
qed

lemma trainSteps_printed:
  assumes "trainSteps upd steps st printed = Some (Inr (st', printed'))"
  shows "\<exists>more. printed' = printed @ more \<and> map fst more = filter (\<lambda>s. s mod 5 = 0) steps"
  using assms
proof (induction steps arbitrary: st printed)
  case Nil
  then show ?case by simp
next
  case (Cons step steps)
  from Cons.prems obtain st1 cost where
    rest: "trainSteps upd steps st1 (if step mod 5 = 0 then printed @ [(step, cost)] else printed)
            = Some (Inr (st', printed'))"
    by (auto simp: Let_def split: option.splits sum.splits)
  from Cons.IH[OF rest] obtain more where
    m: "printed' = (if step mod 5 = 0 then printed @ [(step, cost)] else printed) @ more"
      "map fst more = filter (\<lambda>s. s mod 5 = 0) steps" by blast
  show ?case
  proof (cases "step mod 5 = 0")
    case True
    with m have "printed' = printed @ ((step, cost) # more)" by simp
    moreover have "map fst ((step, cost) # more) = filter (\<lambda>s. s mod 5 = 0) (step # steps)"
      using True m(2) by simp
    ultimately show ?thesis by blast
  next
    case False
    with m show ?thesis by auto
  qed
qed

section \<open>Properties of the denormalisation\<close>












section \<open>Properties of the setup\<close>

lemma generateTrainingData_negative:
  "exampleCount < 0 \<Longrightarrow> generateTrainingData rnd exampleCount st = Inl RangeError"
  by (simp add: generateTrainingData_def newArray_def)

lemma generateTrainingData_zero:
  "generateTrainingData rnd 0 st = Inr (st\<lparr>data := Some \<lparr>input = [], target = []\<rparr>\<rparr>)"
  by (simp add: generateTrainingData_def newArray_def)

lemma initializeWeights_eq:
  "initializeWeights normals (p, t) p =
     Inr (Tensor2D p t (map (\<lambda>i. normals i * sqrt (2 / real p)) [0..<p * t]))"
  by (simp add: initializeWeights_def randomNormal_def tmul_def comp_def)

lemma initializeWeights_eager_eq:
  "initializeWeights_eager normals (p, t) t =
     Inr (Tensor2D p t (map (\<lambda>i. (real t + normals i) * sqrt (2 / real t)) [0..<p * t]))"
  by (simp add: initializeWeights_eager_def randomNormal_def tmul_def comp_def)

lemma createFullyConnectedLayerWeights_eq:
  "createFullyConnectedLayerWeights normals p t k st =
     Inr (st\<lparr>weights := arraySet (weights st) k
                  (Tensor2D p t (map (\<lambda>i. normals i * sqrt (2 / real p)) [0..<p * t])),
              biases := arraySet (biases st) k (Scalar 0)\<rparr>)"
  by (simp add: createFullyConnectedLayerWeights_def initializeWeights_eq)

lemma createFullyConnectedLayerWeights_eager_eq:
  "createFullyConnectedLayerWeights_eager normals p k t st =
     Inr (st\<lparr>weights := arraySet (weights st) k
                  (Tensor2D p t (map (\<lambda>i. (real t + normals i) * sqrt (2 / real t)) [0..<p * t])),
              biases := arraySet (biases st) k (Tensor2D 1 t (replicate t 0))\<rparr>)"
  by (simp add: createFullyConnectedLayerWeights_eager_def initializeWeights_eager_eq zeros_def)

lemma arrayGet_arraySet: "arrayGet (arraySet xs i v) i = Some v"
  by (simp add: arrayGet_def arraySet_def nth_append)


lemma create_props:
  "\<exists>st'. createFullyConnectedLayerWeights normals p t k st = Inr st'
      \<and> sampleSize st' = sampleSize st \<and> arrayGet (biases st') k = Some (Scalar 0)"
  unfolding createFullyConnectedLayerWeights_eq by (simp add: arrayGet_arraySet)

lemma create_eager_props:
  "\<exists>st'. createFullyConnectedLayerWeights_eager normals p k t st = Inr st'
      \<and> arrayGet (biases st') k = Some (Tensor2D 1 t (replicate t 0))"
  unfolding createFullyConnectedLayerWeights_eager_eq by (simp add: arrayGet_arraySet)

lemma setupModel_Inr:
  "\<exists>st'. setupModel rng st = Inr st' \<and> sampleSize st' = sampleSize st
         \<and> arrayGet (biases st') 3 = Some (Scalar 0)"
proof -
  obtain s1 where s1: "createFullyConnectedLayerWeights (rng 0) 3 64 0 st = Inr s1"
    "sampleSize s1 = sampleSize st" using create_props by blast
  obtain s2 where s2: "createFullyConnectedLayerWeights (rng 1) 64 32 1 s1 = Inr s2"
    "sampleSize s2 = sampleSize s1" using create_props by blast
  obtain s3 where s3: "createFullyConnectedLayerWeights (rng 2) 32 16 2 s2 = Inr s3"
    "sampleSize s3 = sampleSize s2" using create_props by blast
  obtain s4 where s4: "createFullyConnectedLayerWeights (rng 3) 16 3 3 s3 = Inr s4"
    "sampleSize s4 = sampleSize s3" "arrayGet (biases s4) 3 = Some (Scalar 0)"
    using create_props by blast
  have "setupModel rng st = Inr s4"
    unfolding setupModel_def s1(1) bindE_Inr s2(1) s3(1) s4(1) ..
  with s1 s2 s3 s4 show ?thesis by simp
qed

lemma setUpModel_eager_Inr:
  "\<exists>st'. setUpModel_eager rng st = Inr st'
         \<and> arrayGet (biases st') 3 = Some (Tensor2D 1 3 (replicate 3 0))"
proof -
  obtain s1 where s1: "createFullyConnectedLayerWeights_eager (rng 0) 3 0 64 st = Inr s1"
    using create_eager_props by blast
  obtain s2 where s2: "createFullyConnectedLayerWeights_eager (rng 1) 64 1 32 s1 = Inr s2"
    using create_eager_props by blast
  obtain s3 where s3: "createFullyConnectedLayerWeights_eager (rng 2) 32 2 16 s2 = Inr s3"
    using create_eager_props by blast
  obtain s4 where s4: "createFullyConnectedLayerWeights_eager (rng 3) 16 3 3 s3 = Inr s4"
    "arrayGet (biases s4) 3 = Some (Tensor2D 1 3 (replicate 3 0))"
    using create_eager_props by blast
  have "setUpModel_eager rng st = Inr s4"
    unfolding setUpModel_eager_def s1(1) bindE_Inr s2(1) s3(1) s4(1) ..
  with s4 show ?thesis by simp
qed

lemma setupSession_negative:
  assumes "sampleSize st < 0"
  shows "setupSession rng rnd st = Inl RangeError"
proof -
  from setupModel_Inr obtain st' where "setupModel rng st = Inr st'" "sampleSize st' = sampleSize st"
    by blast
  then show ?thesis using assms by (simp add: setupSession_def generateTrainingData_negative)
qed

text \<open>
  C8, as amended. \<open>generateTrainingData\<close> does not check its count. A negative count
  fails with the RangeError of the array allocation, before any sample is generated; so
  \<open>setupSession\<close> fails before any training when the sample size is negative. A count
  of 0 is accepted and gives an empty dataset.
\<close>

theorem generate_count_handling:
  "(exampleCount < 0 \<longrightarrow> generateTrainingData rnd exampleCount st = Inl RangeError)
   \<and> (sampleSize st < 0 \<longrightarrow> setupSession rng rnd st = Inl RangeError)
   \<and> (exampleCount = 0 \<longrightarrow>
        generateTrainingData rnd exampleCount st =
          Inr (st\<lparr>data := Some \<lparr>input = [], target = []\<rparr>\<rparr>))"
  using generateTrainingData_negative generateTrainingData_zero setupSession_negative by blast

theorem generate_count_handling_witness:
  "generateTrainingData zeroRandom (- 1) newModel = Inl RangeError
   \<and> setupSession zeroStreams zeroRandom (newModel\<lparr>sampleSize := - 1\<rparr>) = Inl RangeError
   \<and> generateTrainingData zeroRandom 0 tinyModel =
        Inr (tinyModel\<lparr>data := Some \<lparr>input = [], target = []\<rparr>\<rparr>)"
  using generate_count_handling [of "- 1" zeroRandom newModel]
    generate_count_handling [of 0 zeroRandom tinyModel]
    generate_count_handling [of 0 zeroRandom "newModel\<lparr>sampleSize := - 1\<rparr>" zeroStreams]
  by simp

text \<open>C8 as stated fails: the count 0 is not rejected.\<close>

theorem generate_zero_counterexample:
  "generateTrainingData zeroRandom 0 newModel =
     Inr (newModel\<lparr>data := Some \<lparr>input = [], target = []\<rparr>\<rparr>)"
  by (rule generateTrainingData_zero)


text \<open>
  C9. The two source files initialise a layer differently. The first sets the bias to the
  scalar 0 and scales the normal draws by \<open>sqrt (2 / p)\<close>, \<open>p\<close> the size of the previous
  layer; the eager one sets the bias to a matrix of zeros of shape [1, t] and scales by
  \<open>sqrt (2 / t)\<close>, \<open>t\<close> the size of the layer itself (which it also passes to
  \<open>randomNormal\<close> as the mean of the draws). On the same draws and the same model the
  two routines never give the same result, for one layer or for the whole setup.
\<close>

theorem init_variants_differ:
  "createFullyConnectedLayerWeights normals p t k st =
     Inr (st\<lparr>weights := arraySet (weights st) k
                  (Tensor2D p t (map (\<lambda>i. normals i * sqrt (2 / real p)) [0..<p * t])),
              biases := arraySet (biases st) k (Scalar 0)\<rparr>)
   \<and> createFullyConnectedLayerWeights_eager normals p k t st =
     Inr (st\<lparr>weights := arraySet (weights st) k
                  (Tensor2D p t (map (\<lambda>i. (real t + normals i) * sqrt (2 / real t)) [0..<p * t])),
              biases := arraySet (biases st) k (Tensor2D 1 t (replicate t 0))\<rparr>)
   \<and> createFullyConnectedLayerWeights normals p t k st
       \<noteq> createFullyConnectedLayerWeights_eager normals p k t st
   \<and> setupModel rng st \<noteq> setUpModel_eager rng st"
proof -
  have d1: "createFullyConnectedLayerWeights normals p t k st
       \<noteq> createFullyConnectedLayerWeights_eager normals p k t st"
  proof
    assume e: "createFullyConnectedLayerWeights normals p t k st
       = createFullyConnectedLayerWeights_eager normals p k t st"
    from create_props obtain s1 where s1: "createFullyConnectedLayerWeights normals p t k st = Inr s1"
      "arrayGet (biases s1) k = Some (Scalar 0)" by blast
    from create_eager_props obtain s2 where
      s2: "createFullyConnectedLayerWeights_eager normals p k t st = Inr s2"
      "arrayGet (biases s2) k = Some (Tensor2D 1 t (replicate t 0))" by blast
    from e s1(1) s2(1) have "s1 = s2" by simp
    with s1(2) s2(2) show False by simp
  qed
  have d2: "setupModel rng st \<noteq> setUpModel_eager rng st"
  proof
    assume e: "setupModel rng st = setUpModel_eager rng st"
    from setupModel_Inr obtain s1 where s1: "setupModel rng st = Inr s1"
      "arrayGet (biases s1) 3 = Some (Scalar 0)" by blast
    from setUpModel_eager_Inr obtain s2 where s2: "setUpModel_eager rng st = Inr s2"
      "arrayGet (biases s2) 3 = Some (Tensor2D 1 3 (replicate 3 0))" by blast
    from e s1(1) s2(1) have "s1 = s2" by simp
    with s1(2) s2(2) show False by simp
  qed
  show ?thesis
    using d1 d2 createFullyConnectedLayerWeights_eq[of normals p t k st]
      createFullyConnectedLayerWeights_eager_eq[of normals p k t st]
    by blast
qed

lemma first_layer_scales_differ: "sqrt (2 / real (3 :: nat)) \<noteq> sqrt (2 / real (64 :: nat))"
  by simp

section \<open>The forward pass and the training loop on the shipped network\<close>

text \<open>
  Each layer is \<open>relu (input \<cdot> W + b)\<close>; on the network that \<open>setupModel\<close> builds,
  \<open>predict\<close> returns a matrix of three columns for every batch of one or more colours;
  and \<open>trainAndMaybeRender\<close> prints the cost on the steps that are multiples of 5 and
  on no other.
\<close>

lemma connect_is_relu:
  assumes "connectFullyConnectedLayer st t i = Inr t'"
  shows "\<exists>w b p s. arrayGet (weights st) i = Some w \<and> arrayGet (biases st) i = Some b
           \<and> matMul t w = Inr p \<and> tadd p b = Inr s \<and> t' = relu s"
  using assms
  by (auto simp: connectFullyConnectedLayer_def bindE_Inr_iff split: option.splits)

lemma connect_shape:
  assumes "arrayGet (weights st) i = Some (Tensor2D k m w)"
    and "arrayGet (biases st) i = Some (Scalar b)"
  shows "\<exists>vs. connectFullyConnectedLayer st (Tensor2D n k xs) i = Inr (Tensor2D n m vs)"
  using assms by (simp add: connectFullyConnectedLayer_def tadd_def relu_def)

lemma length_concat_rows:
  assumes "\<forall>row \<in> set batch. length row = n"
  shows "length (concat batch) = length batch * n"
  using assms by (induction batch) simp_all

lemma predict_total:
  assumes ws: "weights st = [Some (Tensor2D 3 a w0), Some (Tensor2D a b w1),
                             Some (Tensor2D b c w2), Some (Tensor2D c 3 w3)]"
    and bs: "biases st = [Some (Scalar b0), Some (Scalar b1), Some (Scalar b2), Some (Scalar b3)]"
    and ne: "batch \<noteq> []" and rows: "\<forall>row \<in> set batch. length row = 3"
  shows "\<exists>vs. predict st batch = Inr (Tensor2D (length batch) 3 vs)"
proof -
  let ?n = "length batch"
  obtain row rest where batch: "batch = row # rest" using ne by (cases batch) auto
  have row: "length row = 3" using rows batch by simp
  have t0: "tensor2d batch (?n, length row) = Inr (Tensor2D ?n 3 (concat batch))"
    using length_concat_rows[OF rows] row by (simp add: tensor2d_def)
  have g: "arrayGet (weights st) 0 = Some (Tensor2D 3 a w0)"
    "arrayGet (weights st) 1 = Some (Tensor2D a b w1)"
    "arrayGet (weights st) 2 = Some (Tensor2D b c w2)"
    "arrayGet (weights st) 3 = Some (Tensor2D c 3 w3)"
    "arrayGet (biases st) 0 = Some (Scalar b0)" "arrayGet (biases st) 1 = Some (Scalar b1)"
    "arrayGet (biases st) 2 = Some (Scalar b2)" "arrayGet (biases st) 3 = Some (Scalar b3)"
    by (simp_all add: arrayGet_def ws bs)
  obtain v1 where v1: "connectFullyConnectedLayer st (Tensor2D ?n 3 (concat batch)) 0
      = Inr (Tensor2D ?n a v1)" using connect_shape[OF g(1) g(5)] by blast
  obtain v2 where v2: "connectFullyConnectedLayer st (Tensor2D ?n a v1) 1
      = Inr (Tensor2D ?n b v2)" using connect_shape[OF g(2) g(6)] by blast
  obtain v3 where v3: "connectFullyConnectedLayer st (Tensor2D ?n b v2) 2
      = Inr (Tensor2D ?n c v3)" using connect_shape[OF g(3) g(7)] by blast
  obtain v4 where v4: "connectFullyConnectedLayer st (Tensor2D ?n c v3) 3
      = Inr (Tensor2D ?n 3 v4)" using connect_shape[OF g(4) g(8)] by blast
  have idx: "[0..<length (weights st)] = [0, 1, 2, 3]" by (simp add: ws upt_rec)
  have "layersOutput st batch = Inr (Tensor2D ?n 3 v4)"
    unfolding layersOutput_def batch[symmetric] idx
    using t0 v1 v2 v3 v4 by (simp add: batch)
  then show ?thesis by (simp add: predict_def clampedColorTensor_eq)
qed

lemma setupModel_newModel:
  "\<exists>w0 w1 w2 w3. setupModel rng newModel = Inr (newModel\<lparr>
      weights := [Some (Tensor2D 3 64 w0), Some (Tensor2D 64 32 w1),
                  Some (Tensor2D 32 16 w2), Some (Tensor2D 16 3 w3)],
      biases := [Some (Scalar 0), Some (Scalar 0), Some (Scalar 0), Some (Scalar 0)]\<rparr>)"
proof -
  have c: "createFullyConnectedLayerWeights normals p t (length (weights st)) st =
      Inr (st\<lparr>weights := weights st @ [Some (Tensor2D p t
                 (map (\<lambda>i. normals i * sqrt (2 / real p)) [0..<p * t]))],
              biases := biases st @ [Some (Scalar 0)]\<rparr>)"
    if "length (biases st) = length (weights st)" for normals p t st
    unfolding createFullyConnectedLayerWeights_eq using that by (simp add: arraySet_def)
  let ?s0 = newModel
  define W0 where "W0 = map (\<lambda>i. rng 0 i * sqrt (2 / real 3)) [0..<3 * 64]"
  define W1 where "W1 = map (\<lambda>i. rng 1 i * sqrt (2 / real 64)) [0..<64 * 32]"
  define W2 where "W2 = map (\<lambda>i. rng 2 i * sqrt (2 / real 32)) [0..<32 * 16]"
  define W3 where "W3 = map (\<lambda>i. rng 3 i * sqrt (2 / real 16)) [0..<16 * 3]"
  let ?s1 = "newModel\<lparr>weights := [Some (Tensor2D 3 64 W0)], biases := [Some (Scalar 0)]\<rparr>"
  let ?s2 = "newModel\<lparr>weights := [Some (Tensor2D 3 64 W0), Some (Tensor2D 64 32 W1)],
                       biases := [Some (Scalar 0), Some (Scalar 0)]\<rparr>"
  let ?s3 = "newModel\<lparr>weights := [Some (Tensor2D 3 64 W0), Some (Tensor2D 64 32 W1),
                                   Some (Tensor2D 32 16 W2)],
                       biases := [Some (Scalar 0), Some (Scalar 0), Some (Scalar 0)]\<rparr>"
  let ?s4 = "newModel\<lparr>weights := [Some (Tensor2D 3 64 W0), Some (Tensor2D 64 32 W1),
                                   Some (Tensor2D 32 16 W2), Some (Tensor2D 16 3 W3)],
                       biases := [Some (Scalar 0), Some (Scalar 0), Some (Scalar 0), Some (Scalar 0)]\<rparr>"
  have e1: "createFullyConnectedLayerWeights (rng 0) 3 64 0 newModel = Inr ?s1"
    using c[of newModel "rng 0" 3 64] unfolding W0_def by (simp add: newModel_def)
  have e2: "createFullyConnectedLayerWeights (rng 1) 64 32 1 ?s1 = Inr ?s2"
    using c[of ?s1 "rng 1" 64 32] unfolding W1_def by simp
  have e3: "createFullyConnectedLayerWeights (rng 2) 32 16 2 ?s2 = Inr ?s3"
    using c[of ?s2 "rng 2" 32 16] unfolding W2_def by (simp add: numeral_2_eq_2)
  have e4: "createFullyConnectedLayerWeights (rng 3) 16 3 3 ?s3 = Inr ?s4"
    using c[of ?s3 "rng 3" 16 3] unfolding W3_def by (simp add: numeral_3_eq_3)
  have "setupModel rng newModel = Inr ?s4"
    unfolding setupModel_def e1 bindE_Inr e2 e3 e4 ..
  then show ?thesis by blast
qed

lemma trainAndMaybeRender_printed:
  assumes "trainAndMaybeRender upd st = Some (Inr (st', printed))"
  shows "map fst printed = filter (\<lambda>s. s mod 5 = 0) [1..500]"
  using trainSteps_printed[OF assms[unfolded trainAndMaybeRender_def]] by auto


lemma predict_after_setup:
  assumes "setupModel rng newModel = Inr st"
    and "batch \<noteq> []" and "\<forall>row \<in> set batch. length row = 3"
  shows "\<exists>vs. predict st batch = Inr (Tensor2D (length batch) 3 vs)"
proof -
  from setupModel_newModel[of rng] assms(1) obtain w0 w1 w2 w3 where
    "st = newModel\<lparr>
      weights := [Some (Tensor2D 3 64 w0), Some (Tensor2D 64 32 w1),
                  Some (Tensor2D 32 16 w2), Some (Tensor2D 16 3 w3)],
      biases := [Some (Scalar 0), Some (Scalar 0), Some (Scalar 0), Some (Scalar 0)]\<rparr>"
    by auto
  then have "weights st = [Some (Tensor2D 3 64 w0), Some (Tensor2D 64 32 w1),
                  Some (Tensor2D 32 16 w2), Some (Tensor2D 16 3 w3)]"
    "biases st = [Some (Scalar 0), Some (Scalar 0), Some (Scalar 0), Some (Scalar 0)]"
    by simp_all
  from predict_total[OF this assms(2,3)] show ?thesis .
qed

section \<open>Properties of the forward pass on float32 tensors\<close>

lemma mvals_mapM32: "mvals (mapM32 f t) = map f (mvals t)"
  by (cases t) simp

lemma mapM32_mapM32: "mapM32 f (mapM32 g t) = mapM32 (\<lambda>x. f (g x)) t"
  by (cases t) simp

lemma mapM32_cong: "(\<And>x. x \<in> set (mvals t) \<Longrightarrow> f x = g x) \<Longrightarrow> mapM32 f t = mapM32 g t"
  by (cases t) simp

lemma fmax_zero_nonneg: "fmax (Fin 0) x = NaN \<or> fle (Fin 0) (fmax (Fin 0) x)"
  by (cases x) simp_all

lemma clamp_is_specClamp: "fmax (fmin x (Fin 1)) (Fin 0) = specClamp x"
  by (cases x) (simp_all add: specClamp_def max_def min_def)

lemma specClamp_range:
  "specClamp x = NaN \<or> (fle (Fin 0) (specClamp x) \<and> fle (specClamp x) (Fin 1))"
  by (cases x) (simp_all add: specClamp_def)

lemma fmax_zero_after_fmin:
  "x = NaN \<or> fle (Fin 0) x \<Longrightarrow> fmax (fmin x (Fin 1)) (Fin 0) = fmin x (Fin 1)"
  by (cases x) (auto simp: max_def min_def)

lemma relu32_nonneg: "\<forall>x \<in> set (mvals (relu32 t)). x = NaN \<or> fle (Fin 0) x"
  using fmax_zero_nonneg by (auto simp: relu32_def mvals_mapM32)

lemma connect_spec:
  assumes "connectFullyConnectedLayer_f32 st X i = Inr Y"
  shows "\<exists>W b. arrayGet (weights32 st) i = Some W \<and> arrayGet (biases32 st) i = Some b
           \<and> mcols X = mrows W \<and> Y = specLayer W b X"
proof -
  from assms obtain W P b where W: "arrayGet (weights32 st) i = Some W"
    and P: "matMul32 X W = Inr P" and b: "arrayGet (biases32 st) i = Some b"
    and Y: "Y = relu32 (addScalar32 P b)"
    by (auto simp: connectFullyConnectedLayer_f32_def bindE_Inr_iff split: option.splits)
  obtain m k xs where X: "X = Matrix32 m k xs" by (cases X)
  obtain k' n ws where Wd: "W = Matrix32 k' n ws" by (cases W)
  from P X Wd have k: "k = k'" by (auto split: if_splits)
  from P X Wd k have "P = Matrix32 m n
          (concat (map (\<lambda>i. map (\<lambda>j.
              foldl fadd (Fin 0) (map (\<lambda>l. fmul (xs ! (i * k + l)) (ws ! (l * n + j))) [0..<k]))
            [0..<n]) [0..<m]))" by simp
  then have "Y = specLayer W b X"
    unfolding Y X Wd specLayer_def relu32_def addScalar32_def
    by (simp add: map_concat comp_def)
  with W b k X Wd show ?thesis by simp
qed

lemma connect_nonneg32:
  assumes "connectFullyConnectedLayer_f32 st X i = Inr Y"
  shows "\<forall>x \<in> set (mvals Y). x = NaN \<or> fle (Fin 0) x"
proof -
  from assms obtain T where "Y = relu32 T"
    by (auto simp: connectFullyConnectedLayer_f32_def bindE_Inr_iff split: option.splits)
  then show ?thesis using relu32_nonneg by simp
qed

lemma forwardLayers_spec:
  assumes "forwardLayers_f32 st idxs X = Inr Y"
  shows "\<exists>layers. map (arrayGet (weights32 st)) idxs = map (\<lambda>p. Some (fst p)) layers
           \<and> map (arrayGet (biases32 st)) idxs = map (\<lambda>p. Some (snd p)) layers
           \<and> specForward layers X = Inr Y"
  using assms
proof (induction idxs arbitrary: X)
  case Nil
  then have "specForward [] X = Inr Y" by simp
  then show ?case by (intro exI[of _ "[]"]) simp
next
  case (Cons i idxs)
  from Cons.prems obtain X' where c: "connectFullyConnectedLayer_f32 st X i = Inr X'"
    and r: "forwardLayers_f32 st idxs X' = Inr Y"
    by (auto simp: bindE_Inr_iff)
  from connect_spec[OF c] obtain W b where W: "arrayGet (weights32 st) i = Some W"
    and b: "arrayGet (biases32 st) i = Some b" and d: "mcols X = mrows W"
    and X': "X' = specLayer W b X" by blast
  from Cons.IH[OF r] obtain layers where
    l: "map (arrayGet (weights32 st)) idxs = map (\<lambda>p. Some (fst p)) layers"
      "map (arrayGet (biases32 st)) idxs = map (\<lambda>p. Some (snd p)) layers"
      "specForward layers X' = Inr Y" by blast
  show ?case
    by (intro exI[of _ "(W, b) # layers"]) (simp add: W b d l X'[symmetric])
qed

lemma forwardLayers_nonneg32:
  assumes "forwardLayers_f32 st idxs X = Inr Y" and "idxs \<noteq> []"
  shows "\<forall>x \<in> set (mvals Y). x = NaN \<or> fle (Fin 0) x"
  using assms
proof (induction idxs arbitrary: X)
  case Nil
  then show ?case by simp
next
  case (Cons i idxs)
  from Cons.prems(1) obtain X' where c: "connectFullyConnectedLayer_f32 st X i = Inr X'"
    and r: "forwardLayers_f32 st idxs X' = Inr Y"
    by (auto simp: bindE_Inr_iff)
  show ?case
  proof (cases "idxs = []")
    case True
    with r have "Y = X'" by simp
    with connect_nonneg32[OF c] show ?thesis by simp
  next
    case False
    from Cons.IH[OF r False] show ?thesis .
  qed
qed

lemma map_arrayGet_upt: "map (arrayGet xs) [0..<length xs] = xs"
proof -
  have "map (arrayGet xs) [0..<length xs] = map (\<lambda>i. xs ! i) [0..<length xs]"
    by (rule map_cong) (simp_all add: arrayGet_def)
  then show ?thesis by (simp add: map_nth)
qed

lemma calculate_nonneg32:
  assumes "calculateFullyConnectedLayer_f32 st X i = Inr Y"
  shows "\<forall>x \<in> set (mvals Y). x = NaN \<or> fle (Fin 0) x"
proof -
  from assms obtain T where "Y = relu32 T"
    by (auto simp: calculateFullyConnectedLayer_f32_def bindE_Inr_iff split: option.splits)
  then show ?thesis using relu32_nonneg by simp
qed

lemma predictRaw_eager_nonneg32:
  assumes "predictRaw_eager_f32 st inp = Inr raw"
  shows "\<forall>x \<in> set (mvals raw). x = NaN \<or> fle (Fin 0) x"
proof -
  from assms obtain l2 where "calculateFullyConnectedLayer_f32 st l2 3 = Inr raw"
    by (auto simp: predictRaw_eager_f32_def bindE_Inr_iff)
  then show ?thesis by (rule calculate_nonneg32)
qed


lemma length_concat_grid:
  "length (concat (map (\<lambda>i. map (f i) [0..<n]) [0..<m])) = m * n"
  by (induction m) simp_all

lemma nth_concat_grid:
  assumes "i < m" and "j < n"
  shows "concat (map (\<lambda>i. map (f i) [0..<n]) [0..<m]) ! (i * n + j) = f i j"
  using assms
proof (induction m)
  case 0
  then show ?case by simp
next
  case (Suc m)
  show ?case
  proof (cases "i < m")
    case True
    then have "i * n + j < m * n"
    proof -
      have "i * n + j < i * n + n" using Suc.prems(2) by simp
      also have "\<dots> = Suc i * n" by simp
      also have "\<dots> \<le> m * n" using True by (intro mult_le_mono1) simp
      finally show ?thesis .
    qed
    then show ?thesis using Suc.IH[OF True Suc.prems(2)]
      by (simp add: nth_append length_concat_grid)
  next
    case False
    with Suc.prems(1) have "i = m" by simp
    then show ?thesis using Suc.prems(2)
      by (simp add: nth_append length_concat_grid)
  qed
qed

lemma grid_cong:
  assumes "\<And>i j. i < m \<Longrightarrow> j < n \<Longrightarrow> f i j = g i j"
  shows "concat (map (\<lambda>i. map (f i) [0..<n]) [0..<m]) = concat (map (\<lambda>i. map (g i) [0..<n]) [0..<m])"
proof -
  have "map (f i) [0..<n] = map (g i) [0..<n]" if "i < m" for i
    by (rule map_cong) (simp_all add: assms that)
  then have "map (\<lambda>i. map (f i) [0..<n]) [0..<m] = map (\<lambda>i. map (g i) [0..<n]) [0..<m]"
    by (intro map_cong) simp_all
  then show ?thesis by (rule arg_cong)
qed

lemma add32_one_row:
  "add32 (Matrix32 m n ps) (Matrix32 1 n bs) =
     Inr (Matrix32 m n (concat (map (\<lambda>i. map (\<lambda>j. fadd (ps ! (i * n + j)) (bs ! j)) [0..<n]) [0..<m])))"
proof -
  have g: "concat (map (\<lambda>i. map (\<lambda>j.
                 fadd (ps ! ((if m = 1 then 0 else i) * n + (if n = 1 then 0 else j)))
                      (bs ! ((if (1::nat) = 1 then 0 else i) * n + (if n = 1 then 0 else j))))
               [0..<n]) [0..<m])
      = concat (map (\<lambda>i. map (\<lambda>j. fadd (ps ! (i * n + j)) (bs ! j)) [0..<n]) [0..<m])"
    by (rule grid_cong) auto
  show ?thesis
  proof (cases "m = 1")
    case True
    then show ?thesis using g by (simp add: Let_def)
  next
    case False
    then show ?thesis using g by (simp add: Let_def)
  qed
qed

lemma calculate_spec:
  assumes c: "calculateFullyConnectedLayer_f32 st X i = Inr Y"
    and W: "arrayGet (weights32e st) i = Some (Matrix32 k n ws)"
    and B: "arrayGet (biases32e st) i = Some (Matrix32 1 n bs)"
  shows "Y = specLayer_eager (Matrix32 k n ws) (Matrix32 1 n bs) X"
proof -
  obtain m k' xs where X: "X = Matrix32 m k' xs" by (cases X)
  from c W B obtain P S where P: "matMul32 X (Matrix32 k n ws) = Inr P"
    and S: "add32 P (Matrix32 1 n bs) = Inr S" and Y: "Y = relu32 S"
    by (auto simp: calculateFullyConnectedLayer_f32_def bindE_Inr_iff)
  from P X have k: "k' = k" by (auto split: if_splits)
  let ?dot = "\<lambda>i j. foldl fadd (Fin 0) (map (\<lambda>l. fmul (xs ! (i * k' + l)) (ws ! (l * n + j))) [0..<k'])"
  from P X k have P': "P = Matrix32 m n (concat (map (\<lambda>i. map (?dot i) [0..<n]) [0..<m]))"
    by simp
  have "concat (map (\<lambda>i. map (\<lambda>j.
            fadd (concat (map (\<lambda>i. map (?dot i) [0..<n]) [0..<m]) ! (i * n + j)) (bs ! j))
          [0..<n]) [0..<m])
      = concat (map (\<lambda>i. map (\<lambda>j. fadd (?dot i j) (bs ! j)) [0..<n]) [0..<m])"
    by (rule grid_cong) (simp add: nth_concat_grid)
  with S have "S = Matrix32 m n
      (concat (map (\<lambda>i. map (\<lambda>j. fadd (?dot i j) (bs ! j)) [0..<n]) [0..<m]))"
    unfolding P' add32_one_row by simp
  then show ?thesis
    unfolding Y X specLayer_eager_def relu32_def
    by (simp add: map_concat comp_def)
qed

lemma predictRaw_eager_chain:
  assumes "predictRaw_eager_f32 st inp = Inr raw"
  shows "\<exists>X l0 l1 l2. tensor2dFlat_f32 inp (1, 3) = Inr X
           \<and> calculateFullyConnectedLayer_f32 st X 0 = Inr l0
           \<and> calculateFullyConnectedLayer_f32 st l0 1 = Inr l1
           \<and> calculateFullyConnectedLayer_f32 st l1 2 = Inr l2
           \<and> calculateFullyConnectedLayer_f32 st l2 3 = Inr raw"
  using assms by (auto simp: predictRaw_eager_f32_def bindE_Inr_iff)

text \<open>
  C2, as amended. The output of \<open>predict\<close> is the batch put through the layers in
  order, each layer being \<open>relu (input \<cdot> W + b)\<close> element by element, and then clamped
  with \<open>min (1, max (0, x))\<close>; every element of it lies in [0,1] or is NaN. The eager
  \<open>predictRaw\<close> puts its input through four layers of the same kind and does not clamp:
  every element of its output is NaN or at least 0, and it may exceed 1.
\<close>

theorem forward_clamped_or_nan:
  "(predict_f32 st batch = Inr out \<longrightarrow>
      (\<forall>x \<in> set (mvals out). x = NaN \<or> (fle (Fin 0) x \<and> fle x (Fin 1)))
      \<and> (\<exists>row rest X layers raw.
            batch = row # rest
            \<and> tensor2d_f32 batch (length batch, length row) = Inr X
            \<and> weights32 st = map (\<lambda>p. Some (fst p)) layers
            \<and> map (arrayGet (biases32 st)) [0..<length layers] = map (\<lambda>p. Some (snd p)) layers
            \<and> specForward layers X = Inr raw
            \<and> out = mapM32 specClamp raw))
   \<and> (predictRaw_eager_f32 ste inp = Inr rawe \<longrightarrow>
        (\<forall>x \<in> set (mvals rawe). x = NaN \<or> fle (Fin 0) x)
        \<and> (\<exists>X0 l0 l1 l2. tensor2dFlat_f32 inp (1, 3) = Inr X0
              \<and> calculateFullyConnectedLayer_f32 ste X0 0 = Inr l0
              \<and> calculateFullyConnectedLayer_f32 ste l0 1 = Inr l1
              \<and> calculateFullyConnectedLayer_f32 ste l1 2 = Inr l2
              \<and> calculateFullyConnectedLayer_f32 ste l2 3 = Inr rawe))
   \<and> (calculateFullyConnectedLayer_f32 ste Xe i = Inr Ye
        \<and> arrayGet (weights32e ste) i = Some (Matrix32 k n ws)
        \<and> arrayGet (biases32e ste) i = Some (Matrix32 1 n bs) \<longrightarrow>
        Ye = specLayer_eager (Matrix32 k n ws) (Matrix32 1 n bs) Xe)"
proof -
  have a: "(\<forall>x \<in> set (mvals out). x = NaN \<or> (fle (Fin 0) x \<and> fle x (Fin 1)))
      \<and> (\<exists>row rest X layers raw.
            batch = row # rest
            \<and> tensor2d_f32 batch (length batch, length row) = Inr X
            \<and> weights32 st = map (\<lambda>p. Some (fst p)) layers
            \<and> map (arrayGet (biases32 st)) [0..<length layers] = map (\<lambda>p. Some (snd p)) layers
            \<and> specForward layers X = Inr raw
            \<and> out = mapM32 specClamp raw)"
    if p: "predict_f32 st batch = Inr out"
  proof -
    from p obtain raw where raw: "layersOutput_f32 st batch = Inr raw"
      and out: "out = clampedColorTensor_f32 raw"
      by (auto simp: predict_f32_def bindE_Inr_iff)
    have out': "out = mapM32 specClamp raw"
      unfolding out clampedColorTensor_f32_def minimumScalar32_def maximumScalar32_def
        mapM32_mapM32
      by (rule mapM32_cong) (rule clamp_is_specClamp)
    from raw obtain row rest X where batch: "batch = row # rest"
      and X: "tensor2d_f32 batch (length batch, length row) = Inr X"
      and f: "forwardLayers_f32 st [0..<length (weights32 st)] X = Inr raw"
      by (auto simp: layersOutput_f32_def bindE_Inr_iff split: list.splits)
    from forwardLayers_spec[OF f] obtain layers where
      w: "map (arrayGet (weights32 st)) [0..<length (weights32 st)] = map (\<lambda>p. Some (fst p)) layers"
      and b: "map (arrayGet (biases32 st)) [0..<length (weights32 st)] = map (\<lambda>p. Some (snd p)) layers"
      and s: "specForward layers X = Inr raw" by blast
    from w have w': "weights32 st = map (\<lambda>p. Some (fst p)) layers"
      by (simp add: map_arrayGet_upt)
    then have len: "length (weights32 st) = length layers" by simp
    have rng: "\<forall>x \<in> set (mvals out). x = NaN \<or> (fle (Fin 0) x \<and> fle x (Fin 1))"
      unfolding out' mvals_mapM32 using specClamp_range by auto
    from batch X w' b[unfolded len] s out' rng show ?thesis by blast
  qed
  have b: "(\<forall>x \<in> set (mvals rawe). x = NaN \<or> fle (Fin 0) x)
        \<and> (\<exists>X0 l0 l1 l2. tensor2dFlat_f32 inp (1, 3) = Inr X0
              \<and> calculateFullyConnectedLayer_f32 ste X0 0 = Inr l0
              \<and> calculateFullyConnectedLayer_f32 ste l0 1 = Inr l1
              \<and> calculateFullyConnectedLayer_f32 ste l1 2 = Inr l2
              \<and> calculateFullyConnectedLayer_f32 ste l2 3 = Inr rawe)"
    if "predictRaw_eager_f32 ste inp = Inr rawe"
    using predictRaw_eager_nonneg32[OF that] predictRaw_eager_chain[OF that] by blast
  have c: "Ye = specLayer_eager (Matrix32 k n ws) (Matrix32 1 n bs) Xe"
    if "calculateFullyConnectedLayer_f32 ste Xe i = Inr Ye"
      "arrayGet (weights32e ste) i = Some (Matrix32 k n ws)"
      "arrayGet (biases32e ste) i = Some (Matrix32 1 n bs)"
    using that by (rule calculate_spec)
  from a b c show ?thesis by blast
qed

text \<open>
  C10, as amended. With at least one layer, every component of the output of the layer
  loop, before any clamping, is NaN or at least 0 (it may be infinite), since the last
  layer ends in \<open>relu\<close>, which keeps NaN; and the \<open>maximum\<close> with 0 in
  \<open>clampedColorTensor\<close> changes no value. The same bound holds of the eager
  \<open>predictRaw\<close>.
\<close>

theorem raw_output_nonneg_or_nan:
  "(weights32 st \<noteq> [] \<and> layersOutput_f32 st batch = Inr raw \<longrightarrow>
      (\<forall>x \<in> set (mvals raw). x = NaN \<or> fle (Fin 0) x)
      \<and> maximumScalar32 (minimumScalar32 raw (Fin 1)) (Fin 0) = minimumScalar32 raw (Fin 1)
      \<and> clampedColorTensor_f32 raw = minimumScalar32 raw (Fin 1))
   \<and> (predictRaw_eager_f32 ste inp = Inr rawe \<longrightarrow>
        (\<forall>x \<in> set (mvals rawe). x = NaN \<or> fle (Fin 0) x))"
proof -
  have a: "(\<forall>x \<in> set (mvals raw). x = NaN \<or> fle (Fin 0) x)
      \<and> maximumScalar32 (minimumScalar32 raw (Fin 1)) (Fin 0) = minimumScalar32 raw (Fin 1)
      \<and> clampedColorTensor_f32 raw = minimumScalar32 raw (Fin 1)"
    if w: "weights32 st \<noteq> []" and r: "layersOutput_f32 st batch = Inr raw"
  proof -
    from r obtain X where f: "forwardLayers_f32 st [0..<length (weights32 st)] X = Inr raw"
      by (auto simp: layersOutput_f32_def bindE_Inr_iff split: list.splits)
    have ne: "[0..<length (weights32 st)] \<noteq> []" using w by simp
    have nn: "\<forall>x \<in> set (mvals raw). x = NaN \<or> fle (Fin 0) x"
      using forwardLayers_nonneg32[OF f ne] .
    have m: "maximumScalar32 (minimumScalar32 raw (Fin 1)) (Fin 0) = minimumScalar32 raw (Fin 1)"
      unfolding minimumScalar32_def maximumScalar32_def mapM32_mapM32
      by (rule mapM32_cong) (use nn fmax_zero_after_fmin in blast)
    from nn m show ?thesis by (simp add: clampedColorTensor_f32_def)
  qed
  from a predictRaw_eager_nonneg32 show ?thesis by blast
qed


lemmas eval32 = layersOutput_f32_def predict_f32_def connectFullyConnectedLayer_f32_def
  tensor2d_f32_def arrayGet_def relu32_def addScalar32_def clampedColorTensor_f32_def
  minimumScalar32_def maximumScalar32_def toF32_def f32Bound_def upt_rec

lemmas eval32_eager = predictRaw_eager_f32_def calculateFullyConnectedLayer_f32_def
  tensor2dFlat_f32_def arrayGet_def relu32_def toF32_def f32Bound_def upt_rec

lemma tiny32_layers:
  "layersOutput_f32 tinyModel32 [[1 / 5, 2 / 5, 1 / 5]]
     = Inr (Matrix32 1 3 [Fin (6 / 5), Fin (3 / 20), Fin 0])"
  by (simp add: eval32 tinyModel32_def)

lemma tiny32_predict:
  "predict_f32 tinyModel32 [[1 / 5, 2 / 5, 1 / 5]]
     = Inr (Matrix32 1 3 [Fin 1, Fin (3 / 20), Fin 0])"
  by (simp add: eval32 tinyModel32_def)

lemma tiny32_spec:
  "specForward
     [(Matrix32 3 2 [Fin 1, Fin 0, Fin 0, Fin 1, Fin 1, Fin (- 1)], Fin 0),
      (Matrix32 2 1 [Fin 1, Fin 1], Fin 0),
      (Matrix32 1 1 [Fin 1], Fin 0),
      (Matrix32 1 3 [Fin 2, Fin (1 / 4), Fin (- 1)], Fin 0)]
     (Matrix32 1 3 [Fin (1 / 5), Fin (2 / 5), Fin (1 / 5)])
   = Inr (Matrix32 1 3 [Fin (6 / 5), Fin (3 / 20), Fin 0])"
  by (simp add: specLayer_def toF32_def f32Bound_def upt_rec)

lemma overflow32_layers:
  "layersOutput_f32 overflowModel32 [[2 ^ 127, 0, 0]] = Inr (Matrix32 1 3 [NaN, NaN, NaN])"
  by (simp add: eval32 overflowModel32_def)

lemma overflow32_predict:
  "predict_f32 overflowModel32 [[2 ^ 127, 0, 0]] = Inr (Matrix32 1 3 [NaN, NaN, NaN])"
  by (simp add: eval32 overflowModel32_def)

lemma tiny32_eager_raw:
  "predictRaw_eager_f32 tinyModel32_eager [1 / 5, 2 / 5, 1 / 5]
     = Inr (Matrix32 1 3 [Fin (6 / 5), Fin (3 / 20), Fin 0])"
  by (simp add: eval32_eager tinyModel32_eager_def)

lemma tiny32_eager_layer:
  "calculateFullyConnectedLayer_f32 tinyModel32_eager
     (Matrix32 1 3 [Fin (1 / 5), Fin (2 / 5), Fin (1 / 5)]) 0
     = Inr (Matrix32 1 2 [Fin (2 / 5), Fin (1 / 5)])"
  by (simp add: eval32_eager tinyModel32_eager_def)

theorem forward_clamped_or_nan_witness:
  "predict_f32 tinyModel32 [[1 / 5, 2 / 5, 1 / 5]]
     = Inr (Matrix32 1 3 [Fin 1, Fin (3 / 20), Fin 0])
   \<and> fle (Fin 0) (Fin (3 / 20)) \<and> fle (Fin (3 / 20)) (Fin 1)
   \<and> specForward
        [(Matrix32 3 2 [Fin 1, Fin 0, Fin 0, Fin 1, Fin 1, Fin (- 1)], Fin 0),
         (Matrix32 2 1 [Fin 1, Fin 1], Fin 0),
         (Matrix32 1 1 [Fin 1], Fin 0),
         (Matrix32 1 3 [Fin 2, Fin (1 / 4), Fin (- 1)], Fin 0)]
        (Matrix32 1 3 [Fin (1 / 5), Fin (2 / 5), Fin (1 / 5)])
      = Inr (Matrix32 1 3 [Fin (6 / 5), Fin (3 / 20), Fin 0])
   \<and> mapM32 specClamp (Matrix32 1 3 [Fin (6 / 5), Fin (3 / 20), Fin 0])
      = Matrix32 1 3 [Fin 1, Fin (3 / 20), Fin 0]
   \<and> predictRaw_eager_f32 tinyModel32_eager [1 / 5, 2 / 5, 1 / 5]
      = Inr (Matrix32 1 3 [Fin (6 / 5), Fin (3 / 20), Fin 0])
   \<and> calculateFullyConnectedLayer_f32 tinyModel32_eager
        (Matrix32 1 3 [Fin (1 / 5), Fin (2 / 5), Fin (1 / 5)]) 0
      = Inr (Matrix32 1 2 [Fin (2 / 5), Fin (1 / 5)])
   \<and> specLayer_eager (Matrix32 3 2 [Fin 1, Fin 0, Fin 0, Fin 1, Fin 1, Fin (- 1)])
        (Matrix32 1 2 [Fin 0, Fin 0]) (Matrix32 1 3 [Fin (1 / 5), Fin (2 / 5), Fin (1 / 5)])
      = Matrix32 1 2 [Fin (2 / 5), Fin (1 / 5)]"
proof -
  have w: "arrayGet (weights32e tinyModel32_eager) 0
      = Some (Matrix32 3 2 [Fin 1, Fin 0, Fin 0, Fin 1, Fin 1, Fin (- 1)])"
    and b: "arrayGet (biases32e tinyModel32_eager) 0 = Some (Matrix32 1 2 [Fin 0, Fin 0])"
    by (simp_all add: tinyModel32_eager_def arrayGet_def)
  from forward_clamped_or_nan [of tinyModel32 "[[1 / 5, 2 / 5, 1 / 5]]"
      "Matrix32 1 3 [Fin 1, Fin (3 / 20), Fin 0]" tinyModel32_eager "[1 / 5, 2 / 5, 1 / 5]"
      "Matrix32 1 3 [Fin (6 / 5), Fin (3 / 20), Fin 0]"
      "Matrix32 1 3 [Fin (1 / 5), Fin (2 / 5), Fin (1 / 5)]" 0
      "Matrix32 1 2 [Fin (2 / 5), Fin (1 / 5)]" 3 2
      "[Fin 1, Fin 0, Fin 0, Fin 1, Fin 1, Fin (- 1)]" "[Fin 0, Fin 0]"]
    tiny32_predict tiny32_eager_raw tiny32_eager_layer w b
  have "Matrix32 1 2 [Fin (2 / 5), Fin (1 / 5)]
      = specLayer_eager (Matrix32 3 2 [Fin 1, Fin 0, Fin 0, Fin 1, Fin 1, Fin (- 1)])
        (Matrix32 1 2 [Fin 0, Fin 0]) (Matrix32 1 3 [Fin (1 / 5), Fin (2 / 5), Fin (1 / 5)])"
    by blast
  then show ?thesis
    using tiny32_predict tiny32_spec tiny32_eager_raw tiny32_eager_layer
    by (simp add: specClamp_def)
qed

text \<open>
  C2 as stated fails twice. On finite weights and the finite input \<open>2^127\<close> the first
  layer overflows to infinity, the second subtracts infinity from infinity, and
  \<open>predict\<close> returns NaN, which is not in [0,1]. And the eager \<open>predictRaw\<close> returns
  \<open>6 / 5\<close> on the small network.
\<close>

theorem forward_range_counterexample:
  "predict_f32 overflowModel32 [[2 ^ 127, 0, 0]] = Inr (Matrix32 1 3 [NaN, NaN, NaN])
   \<and> \<not> fle (Fin 0) NaN
   \<and> predictRaw_eager_f32 tinyModel32_eager [1 / 5, 2 / 5, 1 / 5]
      = Inr (Matrix32 1 3 [Fin (6 / 5), Fin (3 / 20), Fin 0])
   \<and> \<not> fle (Fin (6 / 5)) (Fin 1)"
  using overflow32_predict tiny32_eager_raw by simp

theorem raw_output_nonneg_or_nan_witness:
  "weights32 tinyModel32 \<noteq> []
   \<and> layersOutput_f32 tinyModel32 [[1 / 5, 2 / 5, 1 / 5]]
      = Inr (Matrix32 1 3 [Fin (6 / 5), Fin (3 / 20), Fin 0])
   \<and> fle (Fin 0) (Fin (6 / 5)) \<and> fle (Fin 0) (Fin (3 / 20)) \<and> fle (Fin 0) (Fin 0)
   \<and> minimumScalar32 (Matrix32 1 3 [Fin (6 / 5), Fin (3 / 20), Fin 0]) (Fin 1)
      = Matrix32 1 3 [Fin 1, Fin (3 / 20), Fin 0]
   \<and> maximumScalar32 (Matrix32 1 3 [Fin 1, Fin (3 / 20), Fin 0]) (Fin 0)
      = Matrix32 1 3 [Fin 1, Fin (3 / 20), Fin 0]
   \<and> predictRaw_eager_f32 tinyModel32_eager [1 / 5, 2 / 5, 1 / 5]
      = Inr (Matrix32 1 3 [Fin (6 / 5), Fin (3 / 20), Fin 0])"
proof -
  have w: "weights32 tinyModel32 \<noteq> []" by (simp add: tinyModel32_def)
  from raw_output_nonneg_or_nan [of tinyModel32 "[[1 / 5, 2 / 5, 1 / 5]]"
      "Matrix32 1 3 [Fin (6 / 5), Fin (3 / 20), Fin 0]" tinyModel32_eager
      "[1 / 5, 2 / 5, 1 / 5]" "Matrix32 1 3 [Fin (6 / 5), Fin (3 / 20), Fin 0]"]
    w tiny32_layers tiny32_eager_raw
  show ?thesis by (simp add: minimumScalar32_def maximumScalar32_def)
qed

text \<open>
  C10 as stated fails: on finite weights and the finite input \<open>2^127\<close> the output of
  the layer loop is NaN, which is not at least 0.
\<close>

theorem raw_output_counterexample:
  "weights32 overflowModel32 \<noteq> []
   \<and> layersOutput_f32 overflowModel32 [[2 ^ 127, 0, 0]] = Inr (Matrix32 1 3 [NaN, NaN, NaN])
   \<and> \<not> fle (Fin 0) NaN"
  using overflow32_layers by (simp add: overflowModel32_def)

end
